theory Spec2Isabelle
  imports Complex_Main
begin

section \<open>Data model\<close>

text \<open>
  A shallow embedding of \<^verbatim>\<open>src/services/PriceService.ts\<close> and
  \<^verbatim>\<open>src/services/SchedulerService.ts\<close>. JavaScript numbers are only copied by the
  code, never computed with, so a price field is a value that is a number, \<^verbatim>\<open>null\<close>
  or \<^verbatim>\<open>undefined\<close> (what an array read past its end gives). Dates are milliseconds
  since the epoch, as \<^verbatim>\<open>new Date(timestamp * 1000)\<close> makes them.
\<close>

datatype jsval = Num real | Null | Undefined

text \<open>The kind of an asset: the code only ever writes \<^verbatim>\<open>'STOCK'\<close>; one more
  constructor stands for the other values of the enumeration.\<close>

datatype asset_kind = STOCK | OTHER

record asset =
  a_id :: nat
  a_symbol :: string
  a_name :: string
  a_type :: asset_kind

record price =
  p_id :: nat
  p_date :: int
  p_open :: jsval
  p_high :: jsval
  p_low :: jsval
  p_close :: jsval
  p_volume :: jsval
  p_assetId :: nat

text \<open>The \<^verbatim>\<open>meta\<close> block of a chart result, and the chart result itself
  (\<^verbatim>\<open>YahooChartResult\<close>).\<close>

record meta =
  m_currency :: string
  m_symbol :: string
  m_regularMarketPrice :: real
  m_regularMarketDayHigh :: real
  m_regularMarketDayLow :: real
  m_regularMarketVolume :: real
  m_previousClose :: real
  m_regularMarketTime :: int

record quote =
  q_open :: "jsval list"
  q_high :: "jsval list"
  q_low :: "jsval list"
  q_close :: "jsval list"
  q_volume :: "jsval list"

record chart_result =
  cr_meta :: meta
  cr_timestamp :: "int list"
  cr_quote :: "quote list"

text \<open>
  What \<^verbatim>\<open>axios.get\<close> gives: it throws, or it returns a document whose
  \<^verbatim>\<open>chart?.result\<close> is missing (\<open>None\<close>) or a list of results.
\<close>

datatype http = Throws | Data "chart_result list option"

text \<open>The provider: the answer to a GET of a URL issued at a given time.\<close>

type_synonym provider = "string \<Rightarrow> int \<Rightarrow> http"

text \<open>The object \<^verbatim>\<open>getDailyPrices\<close> builds and returns.\<close>

record priceData =
  pd_symbol :: string
  regularMarketPrice :: real
  regularMarketDayHigh :: real
  regularMarketDayLow :: real
  regularMarketVolume :: real
  previousClose :: real
  regularMarketTime :: int
  currency :: string

text \<open>One element of \<^verbatim>\<open>historicalData\<close>.\<close>

record hist_point =
  h_date :: int
  h_open :: jsval
  h_high :: jsval
  h_low :: jsval
  h_close :: jsval
  h_volume :: jsval

datatype status = success | failed

record BulkLoadResult =
  r_symbol :: string
  r_records :: "nat option"
  r_status :: status
  r_error :: "string option"

record DateRangeConfig =
  cfg_range :: string
  cfg_interval :: string

text \<open>
  Thrown values. \<open>Error msg\<close> is \<^verbatim>\<open>new Error(msg)\<close>; the others are what the
  libraries throw: a failed request, a property read on \<^verbatim>\<open>undefined\<close>, a storage call
  that fails, and the violation of a unique constraint.
\<close>

datatype js_error = Error string | NetworkError | TypeError | StorageError | UniqueViolation

text \<open>\<^verbatim>\<open>error instanceof Error ? error.message : 'Error desconocido'\<close>: every thrown
  value of the model is an \<^verbatim>\<open>Error\<close> object; the libraries' messages are not modelled
  beyond a tag.\<close>

fun message :: "js_error \<Rightarrow> string" where
  "message (Error m) = m"
| "message NetworkError = ''NetworkError''"
| "message TypeError = ''TypeError''"
| "message StorageError = ''StorageError''"
| "message UniqueViolation = ''UniqueViolation''"

section \<open>The world: storage, clock and outbound requests\<close>

text \<open>
  The state the services act on. \<open>assets\<close> and \<open>prices\<close> are the two tables with their
  autoincrement counters. \<open>faults\<close> is the schedule of the storage calls to come: each call
  takes the head, and \<open>True\<close> makes that call throw (no entry: the call goes through).
  \<open>clock\<close> is the time in milliseconds; only \<^verbatim>\<open>setTimeout\<close> advances it, so the
  time between two events of the model is the least that can elapse. \<open>requests\<close> logs
  each outbound GET with the time it was issued at.
\<close>

record world =
  assets :: "asset list"
  prices :: "price list"
  asset_seq :: nat
  price_seq :: nat
  faults :: "bool list"
  clock :: int
  requests :: "(string \<times> int) list"

definition storage_call :: "world \<Rightarrow> bool \<times> world" where
  "storage_call w = (case faults w of [] \<Rightarrow> (False, w) | f # fs \<Rightarrow> (f, w\<lparr>faults := fs\<rparr>))"

text \<open>\<^verbatim>\<open>await new Promise(resolve => setTimeout(resolve, ms))\<close>\<close>

definition sleep :: "int \<Rightarrow> world \<Rightarrow> world" where
  "sleep ms w = w\<lparr>clock := clock w + ms\<rparr>"

text \<open>
  Modelled from the spec: the schema (\<^verbatim>\<open>prisma/schema.prisma\<close>) is not among the
  sources; the spec gives it as \<^verbatim>\<open>Asset(id, symbol UNIQUE, name, type)\<close>.
  \<^verbatim>\<open>prisma.asset.upsert({where: {symbol}, update: {}, create: {symbol, name, type}})\<close>
  is one storage call that returns the row of that symbol, creating it with the next
  identifier when there is none.
\<close>

definition asset_upsert :: "string \<Rightarrow> string \<Rightarrow> asset_kind \<Rightarrow> world \<Rightarrow> (js_error + asset) \<times> world" where
  "asset_upsert symbol nm ty w0 =
     (case storage_call w0 of
        (True, w) \<Rightarrow> (Inl StorageError, w)
      | (False, w) \<Rightarrow>
          (case find (\<lambda>a. a_symbol a = symbol) (assets w) of
             Some a \<Rightarrow> (Inr a, w)
           | None \<Rightarrow>
               (let a = \<lparr>a_id = asset_seq w, a_symbol = symbol, a_name = nm, a_type = ty\<rparr>
                in (Inr a, w\<lparr>assets := assets w @ [a], asset_seq := Suc (asset_seq w)\<rparr>))))"

text \<open>
  Modelled from the spec: the schema is not among the sources; the spec gives
  \<^verbatim>\<open>Price(id, date, open, high, low, close, volume, assetId, UNIQUE(assetId, date))\<close>.
  A row conflicts with the stored rows when one of them has its asset and its date.
\<close>

definition conflicts :: "nat \<Rightarrow> int \<Rightarrow> price list \<Rightarrow> bool" where
  "conflicts aid d ps = list_ex (\<lambda>r. p_assetId r = aid \<and> p_date r = d) ps"

definition add_price :: "hist_point \<Rightarrow> nat \<Rightarrow> world \<Rightarrow> world" where
  "add_price d aid w =
     w\<lparr>prices := prices w @
          [\<lparr>p_id = price_seq w, p_date = h_date d, p_open = h_open d, p_high = h_high d,
            p_low = h_low d, p_close = h_close d, p_volume = h_volume d, p_assetId = aid\<rparr>],
       price_seq := Suc (price_seq w)\<rparr>"

text \<open>
  Modelled from the spec: the default of the \<^verbatim>\<open>date\<close> column is in the schema, which is
  not among the sources; the spec says the row of a daily ingestion is dated the call time.
  \<^verbatim>\<open>prisma.price.create({data: {open, high, low, close, volume, assetId}})\<close>: the code
  passes no date, so storage dates the row at the time of the call; a stored row of the
  same asset and date makes the call throw.
\<close>

definition price_create ::
  "jsval \<Rightarrow> jsval \<Rightarrow> jsval \<Rightarrow> jsval \<Rightarrow> jsval \<Rightarrow> nat \<Rightarrow> world \<Rightarrow> (js_error + unit) \<times> world" where
  "price_create op hi lo cl vol aid w0 =
     (case storage_call w0 of
        (True, w) \<Rightarrow> (Inl StorageError, w)
      | (False, w) \<Rightarrow>
          if conflicts aid (clock w) (prices w) then (Inl UniqueViolation, w)
          else (Inr (),
                add_price \<lparr>h_date = clock w, h_open = op, h_high = hi, h_low = lo,
                           h_close = cl, h_volume = vol\<rparr> aid w))"

text \<open>
  \<^verbatim>\<open>prisma.price.createMany({data, skipDuplicates: true})\<close>: the rows are inserted in
  order, and a row that conflicts with a stored row (or with a row inserted earlier in the
  same call) is skipped.
\<close>

fun insert_skip :: "hist_point list \<Rightarrow> nat \<Rightarrow> world \<Rightarrow> world" where
  "insert_skip [] aid w = w"
| "insert_skip (d # ds) aid w =
     insert_skip ds aid (if conflicts aid (h_date d) (prices w) then w else add_price d aid w)"

definition price_createMany :: "hist_point list \<Rightarrow> nat \<Rightarrow> world \<Rightarrow> (js_error + unit) \<times> world" where
  "price_createMany ds aid w0 =
     (case storage_call w0 of
        (True, w) \<Rightarrow> (Inl StorageError, w)
      | (False, w) \<Rightarrow> (Inr (), insert_skip ds aid w))"

text \<open>\<^verbatim>\<open>prisma.asset.findMany({select: {symbol: true}})\<close>\<close>

definition asset_findMany :: "world \<Rightarrow> (js_error + string list) \<times> world" where
  "asset_findMany w0 =
     (case storage_call w0 of
        (True, w) \<Rightarrow> (Inl StorageError, w)
      | (False, w) \<Rightarrow> (Inr (map a_symbol (assets w)), w))"

section \<open>PriceService\<close>

text \<open>
  \<^verbatim>\<open>String.prototype.toUpperCase\<close>, on ASCII text only (tickers): the letters a to z are
  mapped to A to Z and every other byte stays. On a string with letters beyond ASCII the
  JavaScript function also maps those, and may change the length; the model does not follow
  it there.
\<close>

definition toUpperChar :: "char \<Rightarrow> char" where
  "toUpperChar c =
     (let n = (of_char c :: nat) in if 97 \<le> n \<and> n \<le> 122 then char_of (n - 32) else c)"

definition toUpperCase :: "string \<Rightarrow> string" where
  "toUpperCase s = map toUpperChar s"

definition dateRangeConfigs :: "(string \<times> DateRangeConfig) list" where
  "dateRangeConfigs =
     [(''1d'', \<lparr>cfg_range = ''1d'', cfg_interval = ''15m''\<rparr>),
      (''5d'', \<lparr>cfg_range = ''5d'', cfg_interval = ''1d''\<rparr>),
      (''1mo'', \<lparr>cfg_range = ''1mo'', cfg_interval = ''1d''\<rparr>),
      (''3mo'', \<lparr>cfg_range = ''3mo'', cfg_interval = ''1d''\<rparr>),
      (''6mo'', \<lparr>cfg_range = ''6mo'', cfg_interval = ''1d''\<rparr>),
      (''1y'', \<lparr>cfg_range = ''1y'', cfg_interval = ''1d''\<rparr>),
      (''2y'', \<lparr>cfg_range = ''2y'', cfg_interval = ''1d''\<rparr>),
      (''5y'', \<lparr>cfg_range = ''5y'', cfg_interval = ''1wk''\<rparr>),
      (''10y'', \<lparr>cfg_range = ''10y'', cfg_interval = ''1mo''\<rparr>),
      (''max'', \<lparr>cfg_range = ''max'', cfg_interval = ''1mo''\<rparr>)]"

text \<open>
  \<^verbatim>\<open>this.dateRangeConfigs[rangeKey]\<close> reads a property of a plain object, so besides the
  ten keys of the table it finds the members the object inherits from
  \<^verbatim>\<open>Object.prototype\<close>. An inherited member is a function or an object: it is truthy,
  so there is no fallback, and it has no \<^verbatim>\<open>range\<close> and no \<^verbatim>\<open>interval\<close>.
\<close>

definition object_prototype_keys :: "string list" where
  "object_prototype_keys =
     [''constructor'', ''__defineGetter__'', ''__defineSetter__'', ''hasOwnProperty'',
      ''__lookupGetter__'', ''__lookupSetter__'', ''isPrototypeOf'', ''propertyIsEnumerable'',
      ''toString'', ''valueOf'', ''__proto__'', ''toLocaleString'']"

datatype config_value = Config DateRangeConfig | Inherited

definition config_lookup :: "string \<Rightarrow> config_value option" where
  "config_lookup rangeKey =
     (case map_of dateRangeConfigs rangeKey of
        Some c \<Rightarrow> Some (Config c)
      | None \<Rightarrow> if rangeKey \<in> set object_prototype_keys then Some Inherited else None)"

text \<open>\<^verbatim>\<open>this.dateRangeConfigs[rangeKey] || this.dateRangeConfigs['1mo']\<close>\<close>

definition getDateRangeConfig :: "string \<Rightarrow> config_value" where
  "getDateRangeConfig rangeKey =
     (case config_lookup rangeKey of
        Some v \<Rightarrow> v
      | None \<Rightarrow> Config \<lparr>cfg_range = ''1mo'', cfg_interval = ''1d''\<rparr>)"

text \<open>\<^verbatim>\<open>${config.range}\<close> and \<^verbatim>\<open>${config.interval}\<close> in the template of the URL: a
  missing property is written \<^verbatim>\<open>undefined\<close>.\<close>

fun range_text :: "config_value \<Rightarrow> string" where
  "range_text (Config c) = cfg_range c"
| "range_text Inherited = ''undefined''"

fun interval_text :: "config_value \<Rightarrow> string" where
  "interval_text (Config c) = cfg_interval c"
| "interval_text Inherited = ''undefined''"

definition chart_url :: string where
  "chart_url = ''https://query1.finance.yahoo.com/v8/finance/chart/''"

text \<open>The two accented letters of the messages, as their UTF-8 bytes.\<close>

definition o_acute :: string where
  "o_acute = [CHR 0xC3, CHR 0xB3]"

definition i_acute :: string where
  "i_acute = [CHR 0xC3, CHR 0xAD]"

text \<open>An outbound GET: logged with the time, answered by the provider.\<close>

definition axios_get :: "provider \<Rightarrow> string \<Rightarrow> world \<Rightarrow> http \<times> world" where
  "axios_get axios url w = (axios url (clock w), w\<lparr>requests := requests w @ [(url, clock w)]\<rparr>)"

text \<open>\<^verbatim>\<open>ensureAssetExists\<close>: the upsert; an error is logged and thrown again.\<close>

definition ensureAssetExists :: "string \<Rightarrow> world \<Rightarrow> (js_error + asset) \<times> world" where
  "ensureAssetExists symbol w =
     (case asset_upsert symbol symbol STOCK w of
        (Inl e, w') \<Rightarrow> (Inl e, w')
      | (Inr a, w') \<Rightarrow> (Inr a, w'))"

text \<open>\<^verbatim>\<open>saveDailyPriceToDatabase\<close>: every error is caught and logged; nothing is
  returned.\<close>

definition saveDailyPriceToDatabase :: "priceData \<Rightarrow> world \<Rightarrow> world" where
  "saveDailyPriceToDatabase pd w =
     (case ensureAssetExists (pd_symbol pd) w of
        (Inl e, w1) \<Rightarrow> w1
      | (Inr a, w1) \<Rightarrow>
          (case price_create (Num (regularMarketPrice pd)) (Num (regularMarketDayHigh pd))
                  (Num (regularMarketDayLow pd)) (Num (regularMarketPrice pd))
                  (Num (regularMarketVolume pd)) (a_id a) w1 of
             (Inl e, w2) \<Rightarrow> w2
           | (Inr u, w2) \<Rightarrow> w2))"

text \<open>\<^verbatim>\<open>saveHistoricalPricesToDatabase\<close>\<close>

definition saveHistoricalPricesToDatabase :: "string \<Rightarrow> hist_point list \<Rightarrow> world \<Rightarrow> world" where
  "saveHistoricalPricesToDatabase symbol historicalData w =
     (case ensureAssetExists symbol w of
        (Inl e, w1) \<Rightarrow> w1
      | (Inr a, w1) \<Rightarrow>
          if length historicalData = 0 then w1
          else (case price_createMany historicalData (a_id a) w1 of
                  (Inl e, w2) \<Rightarrow> w2
                | (Inr u, w2) \<Rightarrow> w2))"

text \<open>The body of the \<^verbatim>\<open>try\<close> of \<^verbatim>\<open>getDailyPrices\<close>, and the function with its
  \<^verbatim>\<open>catch\<close>, which replaces whatever was thrown by one fixed message.\<close>

definition getDailyPrices_try :: "provider \<Rightarrow> string \<Rightarrow> world \<Rightarrow> (js_error + priceData) \<times> world" where
  "getDailyPrices_try axios symbol w0 =
     (case axios_get axios (chart_url @ symbol) w0 of
        (Throws, w) \<Rightarrow> (Inl NetworkError, w)
      | (Data None, w) \<Rightarrow>
          (Inl (Error (''No se encontraron datos para el s'' @ i_acute @ ''mbolo: '' @ symbol)), w)
      | (Data (Some []), w) \<Rightarrow>
          (Inl (Error (''No se encontraron datos para el s'' @ i_acute @ ''mbolo: '' @ symbol)), w)
      | (Data (Some (result # _)), w) \<Rightarrow>
          (let m = cr_meta result;
               pd = \<lparr>pd_symbol = toUpperCase symbol,
                     regularMarketPrice = m_regularMarketPrice m,
                     regularMarketDayHigh = m_regularMarketDayHigh m,
                     regularMarketDayLow = m_regularMarketDayLow m,
                     regularMarketVolume = m_regularMarketVolume m,
                     previousClose = m_previousClose m,
                     regularMarketTime = m_regularMarketTime m * 1000,
                     currency = m_currency m\<rparr>
           in (Inr pd, saveDailyPriceToDatabase pd w)))"

definition getDailyPrices :: "provider \<Rightarrow> string \<Rightarrow> world \<Rightarrow> (js_error + priceData) \<times> world" where
  "getDailyPrices axios symbol w0 =
     (case getDailyPrices_try axios symbol w0 of
        (Inl e, w) \<Rightarrow> (Inl (Error (''Fallo al obtener precio diario para '' @ symbol)), w)
      | (Inr pd, w) \<Rightarrow> (Inr pd, w))"

text \<open>Reading an array at an index: \<^verbatim>\<open>undefined\<close> past the end.\<close>

definition at_index :: "jsval list \<Rightarrow> nat \<Rightarrow> jsval" where
  "at_index xs i = (if i < length xs then xs ! i else Undefined)"

definition mk_point :: "quote \<Rightarrow> nat \<times> int \<Rightarrow> hist_point" where
  "mk_point quotes it =
     \<lparr>h_date = snd it * 1000,
      h_open = at_index (q_open quotes) (fst it),
      h_high = at_index (q_high quotes) (fst it),
      h_low = at_index (q_low quotes) (fst it),
      h_close = at_index (q_close quotes) (fst it),
      h_volume = at_index (q_volume quotes) (fst it)\<rparr>"

text \<open>
  \<^verbatim>\<open>timestamps.map((timestamp, index) => ...).filter(item => item.open !== null)\<close>.
  When \<^verbatim>\<open>indicators.quote\<close> is empty, \<^verbatim>\<open>quotes\<close> is \<^verbatim>\<open>undefined\<close> and the first
  callback throws; with no timestamp there is no callback and the result is empty.
\<close>

definition normalize :: "int list \<Rightarrow> quote list \<Rightarrow> js_error + hist_point list" where
  "normalize timestamps qs =
     (case qs of
        [] \<Rightarrow> if timestamps = [] then Inr [] else Inl TypeError
      | quotes # _ \<Rightarrow>
          Inr (filter (\<lambda>item. h_open item \<noteq> Null)
                 (map (mk_point quotes) (enumerate 0 timestamps))))"

text \<open>The URL of a historical request: the range and the interval of the configuration
  of the range key.\<close>

definition hist_url :: "string \<Rightarrow> string \<Rightarrow> string" where
  "hist_url symbol rangeKey =
     (let config = getDateRangeConfig rangeKey
      in chart_url @ symbol @ ''?range='' @ range_text config
           @ ''&interval='' @ interval_text config)"

definition getHistoricalPrices_try ::
  "provider \<Rightarrow> string \<Rightarrow> string \<Rightarrow> world \<Rightarrow> (js_error + hist_point list) \<times> world" where
  "getHistoricalPrices_try axios symbol rangeKey w0 =
     (case axios_get axios (hist_url symbol rangeKey) w0 of
        (Throws, w) \<Rightarrow> (Inl NetworkError, w)
      | (Data None, w) \<Rightarrow>
          (Inl (Error (''No se encontraron datos hist'' @ o_acute @ ''ricos para el s''
                        @ i_acute @ ''mbolo: '' @ symbol)), w)
      | (Data (Some []), w) \<Rightarrow>
          (Inl (Error (''No se encontraron datos hist'' @ o_acute @ ''ricos para el s''
                        @ i_acute @ ''mbolo: '' @ symbol)), w)
      | (Data (Some (result # _)), w) \<Rightarrow>
          (case normalize (cr_timestamp result) (cr_quote result) of
             Inl e \<Rightarrow> (Inl e, w)
           | Inr historicalData \<Rightarrow>
               (Inr historicalData, saveHistoricalPricesToDatabase symbol historicalData w)))"

definition getHistoricalPrices ::
  "provider \<Rightarrow> string \<Rightarrow> string \<Rightarrow> world \<Rightarrow> (js_error + hist_point list) \<times> world" where
  "getHistoricalPrices axios symbol rangeKey w0 =
     (case getHistoricalPrices_try axios symbol rangeKey w0 of
        (Inl e, w) \<Rightarrow>
          (Inl (Error (''Fallo al obtener precios hist'' @ o_acute @ ''ricos para '' @ symbol)), w)
      | (Inr historicalData, w) \<Rightarrow> (Inr historicalData, w))"

text \<open>
  The loop of \<^verbatim>\<open>loadBulkHistoricalData\<close>: the results are pushed in order; the pause of
  one second stands inside the \<^verbatim>\<open>try\<close>, after the push of a success.
\<close>

fun bulk_loop ::
  "provider \<Rightarrow> string \<Rightarrow> string list \<Rightarrow> BulkLoadResult list \<Rightarrow> world \<Rightarrow> BulkLoadResult list \<times> world" where
  "bulk_loop axios rng [] results w = (results, w)"
| "bulk_loop axios rng (symbol # symbols) results w =
     (case getHistoricalPrices axios symbol rng w of
        (Inr historicalData, w1) \<Rightarrow>
          bulk_loop axios rng symbols
            (results @ [\<lparr>r_symbol = symbol, r_records = Some (length historicalData),
                         r_status = success, r_error = None\<rparr>])
            (sleep 1000 w1)
      | (Inl e, w1) \<Rightarrow>
          bulk_loop axios rng symbols
            (results @ [\<lparr>r_symbol = symbol, r_records = None,
                         r_status = failed, r_error = Some (message e)\<rparr>])
            w1)"

text \<open>\<^verbatim>\<open>loadBulkHistoricalData\<close>: the outer \<^verbatim>\<open>try\<close> throws again what reaches it;
  nothing in its body throws outside the inner \<^verbatim>\<open>try\<close>.\<close>

definition loadBulkHistoricalData ::
  "provider \<Rightarrow> string list \<Rightarrow> string \<Rightarrow> world \<Rightarrow> (js_error + BulkLoadResult list) \<times> world" where
  "loadBulkHistoricalData axios symbols rng w =
     (case bulk_loop axios rng symbols [] w of (results, w') \<Rightarrow> (Inr results, w'))"

section \<open>The manual bulk driver\<close>

text \<open>
  The registration loop of \<^verbatim>\<open>scripts/load-stocks.js\<close> over one batch of symbols:
  \<^verbatim>\<open>ensureAssetExists\<close> for each, an error being caught and logged.
\<close>

fun register_batch :: "string list \<Rightarrow> world \<Rightarrow> world" where
  "register_batch [] w = w"
| "register_batch (symbol # batch) w =
     (case ensureAssetExists symbol w of
        (Inl e, w1) \<Rightarrow> register_batch batch w1
      | (Inr a, w1) \<Rightarrow> register_batch batch w1)"

section \<open>SchedulerService\<close>

text \<open>The loop of \<^verbatim>\<open>executeDailyClose\<close>, with its two counters; the pause of one second
  stands after the \<^verbatim>\<open>try\<close>/\<^verbatim>\<open>catch\<close>.\<close>

fun daily_loop :: "provider \<Rightarrow> string list \<Rightarrow> nat \<times> nat \<Rightarrow> world \<Rightarrow> (nat \<times> nat) \<times> world" where
  "daily_loop axios [] pf w = (pf, w)"
| "daily_loop axios (symbol # symbols) pf w =
     (case getDailyPrices axios symbol w of
        (Inr result, w1) \<Rightarrow> daily_loop axios symbols (Suc (fst pf), snd pf) (sleep 1000 w1)
      | (Inl e, w1) \<Rightarrow> daily_loop axios symbols (fst pf, Suc (snd pf)) (sleep 1000 w1))"

text \<open>\<^verbatim>\<open>executeDailyClose\<close>: returns nothing; the model returns the two counts it logs
  (\<open>None\<close> when it logs no summary).\<close>

definition executeDailyClose :: "provider \<Rightarrow> world \<Rightarrow> (nat \<times> nat) option \<times> world" where
  "executeDailyClose axios w0 =
     (case asset_findMany w0 of
        (Inl e, w) \<Rightarrow> (None, w)
      | (Inr symbols, w) \<Rightarrow>
          if length symbols = 0 then (None, w)
          else (case daily_loop axios symbols (0, 0) w of (pf, w') \<Rightarrow> (Some pf, w')))"

text \<open>
  The scheduler: its running flag, and the jobs registered with \<^verbatim>\<open>cron.schedule\<close>.
  The service keeps no reference to a job it registers.
\<close>

datatype job = MarketClose | HealthCheck

record scheduler =
  isRunning :: bool
  jobs :: "job list"

definition start :: "scheduler \<Rightarrow> scheduler" where
  "start s =
     (if isRunning s then s
      else s\<lparr>jobs := jobs s @ [MarketClose, HealthCheck], isRunning := True\<rparr>)"

definition stop :: "scheduler \<Rightarrow> scheduler" where
  "stop s = s\<lparr>isRunning := False\<rparr>"

text \<open>A minute of the calendar: minute, hour, and day of the week (0 is Sunday).\<close>

record tick =
  t_minute :: nat
  t_hour :: nat
  t_weekday :: nat

text \<open>The cron expressions \<^verbatim>\<open>'30 21 * * 1-5'\<close> and \<^verbatim>\<open>'0 * * * *'\<close>.\<close>

fun due :: "tick \<Rightarrow> job \<Rightarrow> bool" where
  "due t MarketClose = (t_minute t = 30 \<and> t_hour t = 21 \<and> 1 \<le> t_weekday t \<and> t_weekday t \<le> 5)"
| "due t HealthCheck = (t_minute t = 0)"

text \<open>The jobs that fire at a tick: every registered job whose expression matches.\<close>

definition firing :: "tick \<Rightarrow> scheduler \<Rightarrow> job list" where
  "firing t s = filter (due t) (jobs s)"

section \<open>Predicates and fixtures of the properties\<close>

text \<open>The key of a price row under the unique constraint, and the invariant that no two
  stored rows share a key.\<close>

definition key_of :: "price \<Rightarrow> nat \<times> int" where
  "key_of p = (p_assetId p, p_date p)"

definition uniq_prices :: "price list \<Rightarrow> bool" where
  "uniq_prices ps = distinct (map key_of ps)"

text \<open>What every operation does to the price table: the invariant is kept, and the rows
  stored before are still there, in place and unchanged.\<close>

definition grows :: "world \<Rightarrow> world \<Rightarrow> bool" where
  "grows w w' \<longleftrightarrow>
     (uniq_prices (prices w) \<longrightarrow> uniq_prices (prices w'))
     \<and> take (length (prices w)) (prices w') = prices w"

text \<open>What a fetch makes of the provider's answer: the normalized series of a historical
  request and the price data of a daily one, or nothing when the function throws; and the
  errors the two functions throw.\<close>

fun hist_fetch :: "http \<Rightarrow> hist_point list option" where
  "hist_fetch Throws = None"
| "hist_fetch (Data None) = None"
| "hist_fetch (Data (Some [])) = None"
| "hist_fetch (Data (Some (result # _))) =
     (case normalize (cr_timestamp result) (cr_quote result) of Inl e \<Rightarrow> None | Inr ds \<Rightarrow> Some ds)"

fun daily_fetch :: "string \<Rightarrow> http \<Rightarrow> priceData option" where
  "daily_fetch s Throws = None"
| "daily_fetch s (Data None) = None"
| "daily_fetch s (Data (Some [])) = None"
| "daily_fetch s (Data (Some (result # _))) =
     Some \<lparr>pd_symbol = toUpperCase s,
           regularMarketPrice = m_regularMarketPrice (cr_meta result),
           regularMarketDayHigh = m_regularMarketDayHigh (cr_meta result),
           regularMarketDayLow = m_regularMarketDayLow (cr_meta result),
           regularMarketVolume = m_regularMarketVolume (cr_meta result),
           previousClose = m_previousClose (cr_meta result),
           regularMarketTime = m_regularMarketTime (cr_meta result) * 1000,
           currency = m_currency (cr_meta result)\<rparr>"

definition hist_failure :: "string \<Rightarrow> js_error" where
  "hist_failure s = Error (''Fallo al obtener precios hist'' @ o_acute @ ''ricos para '' @ s)"

definition daily_failure :: "string \<Rightarrow> js_error" where
  "daily_failure s = Error (''Fallo al obtener precio diario para '' @ s)"

text \<open>The day of a date: days since the epoch.\<close>

definition day_of :: "int \<Rightarrow> int" where
  "day_of ms = ms div 86400000"

text \<open>Fixtures: the empty store at 2023-11-14 22:13:20 UTC, and a provider that answers
  every request with one result for AAPL: a snapshot with price 150.25, and a series of
  three points whose second has null values.\<close>

definition world0 :: world where
  "world0 = \<lparr>assets = [], prices = [], asset_seq = 1, price_seq = 1, faults = [],
             clock = 1700000000000, requests = []\<rparr>"

definition aapl_meta :: meta where
  "aapl_meta = \<lparr>m_currency = ''USD'', m_symbol = ''AAPL'', m_regularMarketPrice = 150.25,
                 m_regularMarketDayHigh = 151, m_regularMarketDayLow = 149,
                 m_regularMarketVolume = 1000, m_previousClose = 150,
                 m_regularMarketTime = 1700000000\<rparr>"

definition aapl_quote :: quote where
  "aapl_quote = \<lparr>q_open = [Num 1, Null, Num 3], q_high = [Num 2, Null, Num 4],
                  q_low = [Num 1, Null, Num 2], q_close = [Num 2, Null, Num 3],
                  q_volume = [Num 10, Null, Num 30]\<rparr>"

definition aapl_result :: chart_result where
  "aapl_result = \<lparr>cr_meta = aapl_meta, cr_timestamp = [1699900000, 1699986400, 1700072800],
                   cr_quote = [aapl_quote]\<rparr>"

definition aapl_stub :: provider where
  "aapl_stub url t = Data (Some [aapl_result])"

text \<open>The store after a historical fetch of AAPL, with the storage calls of the next
  fetch set to go through (the upsert) and to fail (the insertion).\<close>

definition aapl_loaded :: world where
  "aapl_loaded = (snd (getHistoricalPrices aapl_stub ''AAPL'' ''5y'' world0))\<lparr>faults := [False, True]\<rparr>"

text \<open>The store with AAPL registered, and the stores after one and after two daily-close
  runs.\<close>

definition aapl_registered :: world where
  "aapl_registered = snd (ensureAssetExists ''AAPL'' world0)"

definition first_close :: world where
  "first_close = snd (executeDailyClose aapl_stub aapl_registered)"

definition second_close :: world where
  "second_close = snd (executeDailyClose aapl_stub first_close)"

text \<open>A well-formed outcome: a success with a record count and no error, or a failure
  with an error message and no record count.\<close>

definition outcome_ok :: "BulkLoadResult \<Rightarrow> bool" where
  "outcome_ok x \<longleftrightarrow>
     (r_status x = success \<and> r_records x \<noteq> None \<and> r_error x = None)
     \<or> (r_status x = failed \<and> r_records x = None \<and> r_error x \<noteq> None)"

text \<open>A provider with no result for the historical request of ZZZZ, and the result of
  AAPL for every other request.\<close>

definition zzzz_aapl_stub :: provider where
  "zzzz_aapl_stub url t = (if url = hist_url ''ZZZZ'' ''5y'' then Data (Some []) else Data (Some [aapl_result]))"

text \<open>Stores whose storage calls fail: the second call (the creation of the row of a
  daily ingestion), and the third call of a daily-close run over AAPL (the same creation).\<close>

definition write_fails :: world where
  "write_fails = world0\<lparr>faults := [False, True]\<rparr>"

definition close_write_fails :: world where
  "close_write_fails = aapl_registered\<lparr>faults := [False, False, True]\<rparr>"

text \<open>The positional zip of the timestamp array with the five arrays of a quote, as the
  specification words it.\<close>

definition zip_points :: "int list \<Rightarrow> quote \<Rightarrow> hist_point list" where
  "zip_points ts q =
     map (\<lambda>(t, op, hi, lo, cl, vol).
            \<lparr>h_date = t * 1000, h_open = op, h_high = hi, h_low = lo, h_close = cl, h_volume = vol\<rparr>)
         (zip ts (zip (q_open q) (zip (q_high q) (zip (q_low q) (zip (q_close q) (q_volume q))))))"

text \<open>A provider whose timestamps are not in ascending order.\<close>

definition unsorted_result :: chart_result where
  "unsorted_result = aapl_result\<lparr>cr_timestamp := [1700072800, 1699900000, 1699986400]\<rparr>"

definition unsorted_stub :: provider where
  "unsorted_stub url t = Data (Some [unsorted_result])"

text \<open>A request log is paced by \<open>d\<close> when any two consecutive requests are at least
  \<open>d\<close> milliseconds apart.\<close>

fun paced :: "int \<Rightarrow> (string \<times> int) list \<Rightarrow> bool" where
  "paced d [] = True"
| "paced d [x] = True"
| "paced d (x # y # rest) = (snd x + d \<le> snd y \<and> paced d (y # rest))"

text \<open>The store with AAPL and MSFT registered, and a provider whose daily request for
  AAPL fails.\<close>

definition two_assets :: world where
  "two_assets = register_batch [''AAPL'', ''MSFT''] world0"

definition aapl_down_stub :: provider where
  "aapl_down_stub url t = (if url = chart_url @ ''AAPL'' then Throws else Data (Some [aapl_result]))"

text \<open>The scheduler as constructed, and two ticks: Friday 21:30 and Monday 09:00.\<close>

definition scheduler0 :: scheduler where
  "scheduler0 = \<lparr>isRunning = False, jobs = []\<rparr>"

definition friday_close :: tick where
  "friday_close = \<lparr>t_minute = 30, t_hour = 21, t_weekday = 5\<rparr>"

definition monday_nine :: tick where
  "monday_nine = \<lparr>t_minute = 0, t_hour = 9, t_weekday = 1\<rparr>"

text \<open>The loop invariant of the daily close: the log is paced, and its last request is at
  least a second old.\<close>

definition settled :: "world \<Rightarrow> bool" where
  "settled w \<longleftrightarrow> paced 1000 (requests w)
     \<and> (requests w = [] \<or> snd (last (requests w)) + 1000 \<le> clock w)"

section \<open>Properties\<close>

subsection \<open>The storage calls\<close>

lemma storage_call_eq:
  "storage_call w = ((case faults w of [] \<Rightarrow> False | f # _ \<Rightarrow> f), w\<lparr>faults := tl (faults w)\<rparr>)"
  by (cases "faults w") (simp_all add: storage_call_def)

lemma conflicts_iff: "conflicts aid d ps \<longleftrightarrow> (aid, d) \<in> set (map key_of ps)"
  by (auto simp: conflicts_def key_of_def list_ex_iff)

lemma add_price_prices:
  "prices (add_price d aid w) = prices w @ [\<lparr>p_id = price_seq w, p_date = h_date d, p_open = h_open d, p_high = h_high d,
            p_low = h_low d, p_close = h_close d, p_volume = h_volume d, p_assetId = aid\<rparr>]"
  by (simp add: add_price_def)

lemma add_price_frame:
  "assets (add_price d aid w) = assets w" "faults (add_price d aid w) = faults w"
  "clock (add_price d aid w) = clock w" "requests (add_price d aid w) = requests w"
  "asset_seq (add_price d aid w) = asset_seq w"
  by (simp_all add: add_price_def)

lemma add_price_uniq:
  "uniq_prices (prices w) \<Longrightarrow> \<not> conflicts aid (h_date d) (prices w) \<Longrightarrow> uniq_prices (prices (add_price d aid w))"
  by (simp add: uniq_prices_def conflicts_iff add_price_prices key_of_def)

lemma insert_skip_frame:
  "assets (insert_skip ds aid w) = assets w \<and> faults (insert_skip ds aid w) = faults w
   \<and> clock (insert_skip ds aid w) = clock w \<and> requests (insert_skip ds aid w) = requests w
   \<and> asset_seq (insert_skip ds aid w) = asset_seq w"
  by (induction ds arbitrary: w) (simp_all add: add_price_frame)

lemma insert_skip_uniq:
  "uniq_prices (prices w) \<Longrightarrow> uniq_prices (prices (insert_skip ds aid w))"
  by (induction ds arbitrary: w) (simp_all add: add_price_uniq)

lemma insert_skip_take:
  "take (length (prices w)) (prices (insert_skip ds aid w)) = prices w"
proof (induction ds arbitrary: w)
  case Nil
  then show ?case by simp
next
  case (Cons d ds)
  show ?case
  proof (cases "conflicts aid (h_date d) (prices w)")
    case True
    then show ?thesis using Cons.IH [of w] by simp
  next
    case False
    have "take (length (prices w)) (prices (insert_skip ds aid (add_price d aid w)))
          = take (length (prices w)) (take (length (prices (add_price d aid w))) (prices (insert_skip ds aid (add_price d aid w))))"
      by (simp add: add_price_prices min_def)
    also have "\<dots> = take (length (prices w)) (prices (add_price d aid w))"
      by (simp only: Cons.IH)
    also have "\<dots> = prices w" by (simp add: add_price_prices)
    finally show ?thesis using False by simp
  qed
qed

lemma conflicts_mono:
  "take (length ps) ps' = ps \<Longrightarrow> conflicts aid d ps \<Longrightarrow> conflicts aid d ps'"
proof -
  assume t: "take (length ps) ps' = ps" and c: "conflicts aid d ps"
  have "set ps \<subseteq> set ps'" using set_take_subset [of "length ps" ps'] t by simp
  with c show ?thesis by (auto simp: conflicts_def list_ex_iff)
qed

lemma insert_skip_mono:
  "conflicts aid d (prices w) \<Longrightarrow> conflicts aid d (prices (insert_skip ds aid' w))"
  using conflicts_mono [OF insert_skip_take] .

lemma add_price_conflicts: "conflicts aid (h_date d) (prices (add_price d aid w))"
  by (simp add: conflicts_def add_price_prices)

lemma insert_skip_covers:
  "d \<in> set ds \<Longrightarrow> conflicts aid (h_date d) (prices (insert_skip ds aid w))"
proof (induction ds arbitrary: w)
  case Nil
  then show ?case by simp
next
  case (Cons x xs)
  show ?case
  proof (cases "d = x")
    case True
    then show ?thesis by (simp add: insert_skip_mono add_price_conflicts)
  next
    case False
    with Cons.prems have "d \<in> set xs" by simp
    then show ?thesis by (simp add: Cons.IH)
  qed
qed

lemma insert_skip_noop:
  "\<forall>d \<in> set ds. conflicts aid (h_date d) (prices w) \<Longrightarrow> insert_skip ds aid w = w"
  by (induction ds arbitrary: w) simp_all

subsection \<open>The price table only grows\<close>

lemma take_eq_length: "take (length ps) xs = ps \<Longrightarrow> length ps \<le> length xs"
  by (metis length_take min.cobounded1)

lemma grows_refl: "prices w' = prices w \<Longrightarrow> grows w w'"
  by (simp add: grows_def)

lemma grows_trans: "grows w w1 \<Longrightarrow> grows w1 w2 \<Longrightarrow> grows w w2"
proof -
  assume a: "grows w w1" and b: "grows w1 w2"
  have l: "length (prices w) \<le> length (prices w1)"
    using a take_eq_length [of "prices w" "prices w1"] by (simp add: grows_def)
  have "take (length (prices w)) (prices w2)
        = take (length (prices w)) (take (length (prices w1)) (prices w2))"
    using l by (simp add: min_def)
  also have "\<dots> = prices w" using a b by (simp add: grows_def)
  finally show ?thesis using a b by (simp add: grows_def)
qed

lemma grows_price_eq: "grows w w1 \<Longrightarrow> prices w2 = prices w1 \<Longrightarrow> grows w w2"
  by (simp add: grows_def)

lemma asset_upsert_prices: "prices (snd (asset_upsert s n t w)) = prices w"
  by (simp add: asset_upsert_def storage_call_eq Let_def split: list.splits option.splits bool.splits)

lemma ensureAssetExists_eq: "ensureAssetExists s w = asset_upsert s s STOCK w"
  by (simp add: ensureAssetExists_def split: prod.splits sum.splits)

lemma ensureAssetExists_prices: "prices (snd (ensureAssetExists s w)) = prices w"
  by (simp add: ensureAssetExists_eq asset_upsert_prices)

lemma price_create_grows: "grows w (snd (price_create op hi lo cl vol aid w))"
proof -
  let ?w = "w\<lparr>faults := tl (faults w)\<rparr>"
  let ?d = "\<lparr>h_date = clock ?w, h_open = op, h_high = hi, h_low = lo, h_close = cl, h_volume = vol\<rparr>"
  have "grows ?w (add_price ?d aid ?w)" if "\<not> conflicts aid (clock ?w) (prices ?w)"
    using that add_price_uniq [of ?w aid ?d] by (simp add: grows_def add_price_prices)
  then show ?thesis
    by (auto simp: price_create_def storage_call_eq grows_def split: list.splits bool.splits)
qed

lemma price_createMany_grows: "grows w (snd (price_createMany ds aid w))"
  using insert_skip_uniq [of "w\<lparr>faults := tl (faults w)\<rparr>" ds aid]
        insert_skip_take [of "w\<lparr>faults := tl (faults w)\<rparr>" ds aid]
  by (auto simp: price_createMany_def storage_call_eq grows_def split: list.splits bool.splits)

lemma saveDaily_grows: "grows w (saveDailyPriceToDatabase pd w)"
proof (cases "ensureAssetExists (pd_symbol pd) w")
  case (Pair r w1)
  have g1: "grows w w1" using ensureAssetExists_prices [of "pd_symbol pd" w] Pair
    by (simp add: grows_refl)
  show ?thesis
  proof (cases r)
    case (Inl e)
    then show ?thesis using Pair g1 by (simp add: saveDailyPriceToDatabase_def)
  next
    case (Inr a)
    let ?c = "price_create (Num (regularMarketPrice pd)) (Num (regularMarketDayHigh pd))
                  (Num (regularMarketDayLow pd)) (Num (regularMarketPrice pd))
                  (Num (regularMarketVolume pd)) (a_id a) w1"
    have "saveDailyPriceToDatabase pd w = snd ?c"
      using Pair Inr by (simp add: saveDailyPriceToDatabase_def split: prod.splits sum.splits)
    then show ?thesis using grows_trans [OF g1 price_create_grows] by simp
  qed
qed

lemma saveHistorical_grows: "grows w (saveHistoricalPricesToDatabase s ds w)"
proof (cases "ensureAssetExists s w")
  case (Pair r w1)
  have g1: "grows w w1" using ensureAssetExists_prices [of s w] Pair
    by (simp add: grows_refl)
  show ?thesis
  proof (cases r)
    case (Inl e)
    then show ?thesis using Pair g1 by (simp add: saveHistoricalPricesToDatabase_def)
  next
    case (Inr a)
    have "saveHistoricalPricesToDatabase s ds w = (if ds = [] then w1 else snd (price_createMany ds (a_id a) w1))"
      using Pair Inr by (simp add: saveHistoricalPricesToDatabase_def split: prod.splits sum.splits)
    then show ?thesis using grows_trans [OF g1 price_createMany_grows] g1 by simp
  qed
qed

lemma axios_get_world: "snd (axios_get axios url w) = w\<lparr>requests := requests w @ [(url, clock w)]\<rparr>"
  by (simp add: axios_get_def)

lemma getDailyPrices_grows: "grows w (snd (getDailyPrices axios s w))"
proof -
  let ?w = "w\<lparr>requests := requests w @ [(chart_url @ s, clock w)]\<rparr>"
  have g0: "grows w ?w" by (simp add: grows_refl)
  have "snd (getDailyPrices axios s w) = ?w \<or> (\<exists>pd. snd (getDailyPrices axios s w) = saveDailyPriceToDatabase pd ?w)"
    by (auto simp: getDailyPrices_def getDailyPrices_try_def axios_get_def Let_def
        split: http.splits option.splits list.splits)
  then show ?thesis using g0 grows_trans [OF g0 saveDaily_grows] by auto
qed

lemma getHistoricalPrices_grows: "grows w (snd (getHistoricalPrices axios s r w))"
proof -
  let ?w = "w\<lparr>requests := requests w @ [(hist_url s r, clock w)]\<rparr>"
  have g0: "grows w ?w" by (simp add: grows_refl)
  have "snd (getHistoricalPrices axios s r w) = ?w \<or> (\<exists>ds. snd (getHistoricalPrices axios s r w) = saveHistoricalPricesToDatabase s ds ?w)"
    by (auto simp: getHistoricalPrices_def getHistoricalPrices_try_def axios_get_def
        split: http.splits option.splits list.splits sum.splits)
  then show ?thesis using g0 grows_trans [OF g0 saveHistorical_grows] by auto
qed

lemma sleep_prices: "prices (sleep ms w) = prices w"
  by (simp add: sleep_def)

lemma bulk_loop_grows: "grows w (snd (bulk_loop axios r symbols results w))"
proof (induction symbols arbitrary: results w)
  case Nil
  then show ?case by (simp add: grows_refl)
next
  case (Cons s symbols)
  obtain x w1 where g: "getHistoricalPrices axios s r w = (x, w1)" by force
  have g1: "grows w w1" using getHistoricalPrices_grows [of w axios s r] g by simp
  have g2: "grows w (sleep 1000 w1)" using g1 by (rule grows_price_eq) (simp add: sleep_prices)
  show ?case using g grows_trans [OF g1 Cons.IH] grows_trans [OF g2 Cons.IH]
    by (cases x) simp_all
qed

lemma daily_loop_grows: "grows w (snd (daily_loop axios symbols pf w))"
proof (induction symbols arbitrary: pf w)
  case Nil
  then show ?case by (simp add: grows_refl)
next
  case (Cons s symbols)
  obtain x w1 where g: "getDailyPrices axios s w = (x, w1)" by force
  have g1: "grows w w1" using getDailyPrices_grows [of w axios s] g by simp
  have g2: "grows w (sleep 1000 w1)" using g1 by (rule grows_price_eq) (simp add: sleep_prices)
  show ?case using g grows_trans [OF g2 Cons.IH]
    by (cases x) simp_all
qed

lemma loadBulk_eq:
  "loadBulkHistoricalData axios symbols r w =
     (Inr (fst (bulk_loop axios r symbols [] w)), snd (bulk_loop axios r symbols [] w))"
  by (simp add: loadBulkHistoricalData_def split: prod.splits)

lemma loadBulk_grows: "grows w (snd (loadBulkHistoricalData axios symbols r w))"
  by (simp add: loadBulk_eq bulk_loop_grows)

lemma executeDailyClose_eq:
  "executeDailyClose axios w =
     (let w1 = w\<lparr>faults := tl (faults w)\<rparr> in
      if (case faults w of [] \<Rightarrow> False | f # _ \<Rightarrow> f) \<or> assets w = [] then (None, w1)
      else (Some (fst (daily_loop axios (map a_symbol (assets w)) (0, 0) w1)),
            snd (daily_loop axios (map a_symbol (assets w)) (0, 0) w1)))"
  by (simp add: executeDailyClose_def asset_findMany_def storage_call_eq Let_def
      split: prod.splits bool.splits list.splits)

lemma executeDailyClose_grows: "grows w (snd (executeDailyClose axios w))"
proof -
  let ?w = "w\<lparr>faults := tl (faults w)\<rparr>"
  have g0: "grows w ?w" by (simp add: grows_refl)
  show ?thesis using g0 grows_trans [OF g0 daily_loop_grows]
    by (simp add: executeDailyClose_eq Let_def)
qed

subsection \<open>The two fetches, by the provider's answer\<close>

lemma getHistoricalPrices_eq:
  "getHistoricalPrices axios s r w =
     (let wr = w\<lparr>requests := requests w @ [(hist_url s r, clock w)]\<rparr> in
      case hist_fetch (axios (hist_url s r) (clock w)) of
        None \<Rightarrow> (Inl (hist_failure s), wr)
      | Some ds \<Rightarrow> (Inr ds, saveHistoricalPricesToDatabase s ds wr))"
proof (cases "axios (hist_url s r) (clock w)" rule: hist_fetch.cases)
qed (simp_all add: getHistoricalPrices_def getHistoricalPrices_try_def axios_get_def Let_def
       hist_failure_def split: sum.splits)

lemma getDailyPrices_eq:
  "getDailyPrices axios s w =
     (let wr = w\<lparr>requests := requests w @ [(chart_url @ s, clock w)]\<rparr> in
      case daily_fetch s (axios (chart_url @ s) (clock w)) of
        None \<Rightarrow> (Inl (daily_failure s), wr)
      | Some pd \<Rightarrow> (Inr pd, saveDailyPriceToDatabase pd wr))"
proof (cases "(s, axios (chart_url @ s) (clock w))" rule: daily_fetch.cases)
qed (simp_all add: getDailyPrices_def getDailyPrices_try_def axios_get_def Let_def daily_failure_def)

subsection \<open>Repeating a save when no storage call fails\<close>

lemma storage_call_nofault: "faults w = [] \<Longrightarrow> storage_call w = (False, w)"
  by (simp add: storage_call_def)

lemma find_snoc: "find P (xs @ [x]) = (case find P xs of None \<Rightarrow> (if P x then Some x else None) | Some y \<Rightarrow> Some y)"
  by (induction xs) simp_all

lemma ensure_nofault:
  assumes "faults w = []"
  shows "\<exists>a w'. ensureAssetExists s w = (Inr a, w') \<and> faults w' = [] \<and> prices w' = prices w
          \<and> clock w' = clock w \<and> requests w' = requests w \<and> find (\<lambda>a. a_symbol a = s) (assets w') = Some a"
  using assms
  by (cases "find (\<lambda>a. a_symbol a = s) (assets w)")
     (simp_all add: ensureAssetExists_eq asset_upsert_def storage_call_nofault find_snoc Let_def)

lemma ensure_found:
  "faults w = [] \<Longrightarrow> find (\<lambda>a. a_symbol a = s) (assets w) = Some a \<Longrightarrow> ensureAssetExists s w = (Inr a, w)"
  by (simp add: ensureAssetExists_eq asset_upsert_def storage_call_nofault)

lemma saveHistorical_nofault:
  assumes "faults w = []"
  shows "\<exists>a. find (\<lambda>a. a_symbol a = s) (assets (saveHistoricalPricesToDatabase s ds w)) = Some a
           \<and> (\<forall>d \<in> set ds. conflicts (a_id a) (h_date d) (prices (saveHistoricalPricesToDatabase s ds w)))
           \<and> faults (saveHistoricalPricesToDatabase s ds w) = []
           \<and> clock (saveHistoricalPricesToDatabase s ds w) = clock w"
proof -
  obtain a w1 where e: "ensureAssetExists s w = (Inr a, w1)" "faults w1 = []" "clock w1 = clock w"
    "find (\<lambda>a. a_symbol a = s) (assets w1) = Some a"
    using ensure_nofault [OF assms, of s] by blast
  show ?thesis
  proof (cases "ds = []")
    case True
    then show ?thesis using e by (simp add: saveHistoricalPricesToDatabase_def)
  next
    case False
    then have "saveHistoricalPricesToDatabase s ds w = insert_skip ds (a_id a) w1"
      using e by (simp add: saveHistoricalPricesToDatabase_def price_createMany_def storage_call_nofault)
    then show ?thesis using e by (simp add: insert_skip_frame insert_skip_covers)
  qed
qed

lemma saveHistorical_noop:
  assumes "faults w = []" "find (\<lambda>a. a_symbol a = s) (assets w) = Some a"
    "\<forall>d \<in> set ds. conflicts (a_id a) (h_date d) (prices w)"
  shows "saveHistoricalPricesToDatabase s ds w = w"
  using assms
  by (simp add: saveHistoricalPricesToDatabase_def ensure_found price_createMany_def
        storage_call_nofault insert_skip_noop)

lemma historical_reload:
  assumes "faults w = []"
  shows "prices (snd (getHistoricalPrices axios s r (snd (getHistoricalPrices axios s r w))))
         = prices (snd (getHistoricalPrices axios s r w))"
proof (cases "hist_fetch (axios (hist_url s r) (clock w))")
  case None
  then show ?thesis by (simp add: getHistoricalPrices_eq Let_def)
next
  case (Some ds)
  let ?wr = "w\<lparr>requests := requests w @ [(hist_url s r, clock w)]\<rparr>"
  let ?w1 = "saveHistoricalPricesToDatabase s ds ?wr"
  have f: "faults ?wr = []" using assms by simp
  obtain a where a: "find (\<lambda>a. a_symbol a = s) (assets ?w1) = Some a"
    "\<forall>d \<in> set ds. conflicts (a_id a) (h_date d) (prices ?w1)" "faults ?w1 = []" "clock ?w1 = clock w"
    using saveHistorical_nofault [OF f, of s ds] by auto
  have w1: "snd (getHistoricalPrices axios s r w) = ?w1"
    using Some by (simp add: getHistoricalPrices_eq Let_def)
  let ?wr2 = "?w1\<lparr>requests := requests ?w1 @ [(hist_url s r, clock ?w1)]\<rparr>"
  have "saveHistoricalPricesToDatabase s ds ?wr2 = ?wr2"
    using a by (intro saveHistorical_noop [where a = a]) simp_all
  then have "snd (getHistoricalPrices axios s r ?w1) = ?wr2"
    using Some a(4) by (simp add: getHistoricalPrices_eq [of axios s r ?w1] Let_def)
  then show ?thesis using w1 by simp
qed

subsection \<open>Registration, by cases\<close>

lemma find_None_symbol: "find (\<lambda>a. a_symbol a = s) xs = None \<longleftrightarrow> s \<notin> a_symbol ` set xs"
  by (auto simp: find_None_iff)

lemma find_Some_symbol: "find (\<lambda>a. a_symbol a = s) xs = Some a \<Longrightarrow> a \<in> set xs \<and> a_symbol a = s"
  by (auto simp: find_Some_iff)

lemma ensure_cases:
  "ensureAssetExists s w =
     (if (case faults w of [] \<Rightarrow> False | f # _ \<Rightarrow> f) then (Inl StorageError, w\<lparr>faults := tl (faults w)\<rparr>)
      else case find (\<lambda>a. a_symbol a = s) (assets w) of
             Some a \<Rightarrow> (Inr a, w\<lparr>faults := tl (faults w)\<rparr>)
           | None \<Rightarrow>
               (Inr \<lparr>a_id = asset_seq w, a_symbol = s, a_name = s, a_type = STOCK\<rparr>,
                w\<lparr>faults := tl (faults w),
                  assets := assets w @ [\<lparr>a_id = asset_seq w, a_symbol = s, a_name = s, a_type = STOCK\<rparr>],
                  asset_seq := Suc (asset_seq w)\<rparr>))"
  by (simp add: ensureAssetExists_eq asset_upsert_def storage_call_eq Let_def split: option.splits)

subsection \<open>Evaluation of the model\<close>

lemmas model_defs =
  getDailyPrices_def getDailyPrices_try_def getHistoricalPrices_def getHistoricalPrices_try_def
  axios_get_def saveDailyPriceToDatabase_def saveHistoricalPricesToDatabase_def
  ensureAssetExists_def asset_upsert_def storage_call_def price_create_def price_createMany_def
  conflicts_def add_price_def asset_findMany_def executeDailyClose_def loadBulkHistoricalData_def
  sleep_def normalize_def mk_point_def at_index_def hist_url_def getDateRangeConfig_def
  config_lookup_def dateRangeConfigs_def chart_url_def o_acute_def i_acute_def Let_def

lemma toUpperCase_tickers:
  "toUpperCase ''AAPL'' = ''AAPL''" "toUpperCase ''aapl'' = ''AAPL''"
  "toUpperCase ''MSFT'' = ''MSFT''"
  by code_simp+

lemmas fixture_defs =
  world0_def aapl_stub_def aapl_result_def aapl_meta_def aapl_quote_def toUpperCase_tickers

subsection \<open>C1: one price row per asset and date\<close>

lemma daily_fetch_symbol: "daily_fetch s h = Some pd \<Longrightarrow> pd_symbol pd = toUpperCase s"
  by (cases "(s, h)" rule: daily_fetch.cases) auto

lemma saveDaily_stored:
  assumes "prices (saveDailyPriceToDatabase pd w) \<noteq> prices w"
  shows "\<exists>a. find (\<lambda>x. a_symbol x = pd_symbol pd) (assets (saveDailyPriceToDatabase pd w)) = Some a
           \<and> conflicts (a_id a) (clock w) (prices (saveDailyPriceToDatabase pd w))
           \<and> p_assetId (last (prices (saveDailyPriceToDatabase pd w))) = a_id a"
  using assms
  by (cases "find (\<lambda>x. a_symbol x = pd_symbol pd) (assets w)")
     (auto simp: saveDailyPriceToDatabase_def ensure_cases price_create_def storage_call_eq
        add_price_def conflicts_def find_snoc split: if_splits bool.splits list.splits)

lemma saveDaily_conflict_noop:
  assumes "find (\<lambda>x. a_symbol x = pd_symbol pd) (assets w) = Some a"
    and "conflicts (a_id a) (clock w) (prices w)"
  shows "prices (saveDailyPriceToDatabase pd w) = prices w"
  using assms
  by (simp add: saveDailyPriceToDatabase_def ensure_cases price_create_def storage_call_eq
      split: bool.splits list.splits)

lemma two_calls_pass:
  "list_all (\<lambda>f. \<not> f) (take 2 fs) \<Longrightarrow>
     \<not> (case fs of [] \<Rightarrow> False | f # _ \<Rightarrow> f) \<and> \<not> (case tl fs of [] \<Rightarrow> False | f # _ \<Rightarrow> f)"
  by (cases fs; cases "tl fs") (auto simp: numeral_2_eq_2)

lemma saveDaily_adds:
  assumes "find (\<lambda>x. a_symbol x = pd_symbol pd) (assets w) = Some a"
    and "\<not> conflicts (a_id a) (clock w) (prices w)"
    and "list_all (\<lambda>f. \<not> f) (take 2 (faults w))"
  shows "\<exists>row. prices (saveDailyPriceToDatabase pd w) = prices w @ [row]
           \<and> p_date row = clock w \<and> p_assetId row = a_id a"
  using assms(1,2) two_calls_pass [OF assms(3)]
  by (simp add: saveDailyPriceToDatabase_def ensure_cases price_create_def storage_call_eq
      add_price_def)

lemma saveHistorical_stored_noop:
  assumes "find (\<lambda>x. a_symbol x = s) (assets w) = Some a"
    and "\<forall>d \<in> set ds. conflicts (a_id a) (h_date d) (prices w)"
  shows "prices (saveHistoricalPricesToDatabase s ds w) = prices w"
proof -
  have "insert_skip ds (a_id a) (w\<lparr>faults := tl (tl (faults w))\<rparr>) = w\<lparr>faults := tl (tl (faults w))\<rparr>"
    using assms(2) by (intro insert_skip_noop) simp
  then show ?thesis
    using assms(1)
    by (simp add: saveHistoricalPricesToDatabase_def ensure_cases price_createMany_def
        storage_call_eq split: bool.splits list.splits)
qed

lemma historical_stored_noop:
  assumes "fst (getHistoricalPrices axios s r w) = Inr pts"
    and "find (\<lambda>x. a_symbol x = s) (assets w) = Some a"
    and "\<forall>d \<in> set pts. conflicts (a_id a) (h_date d) (prices w)"
  shows "prices (snd (getHistoricalPrices axios s r w)) = prices w"
proof (cases "hist_fetch (axios (hist_url s r) (clock w))")
  case None
  then show ?thesis by (simp add: getHistoricalPrices_eq Let_def)
next
  case (Some ds)
  then have "ds = pts" using assms(1) by (simp add: getHistoricalPrices_eq Let_def)
  then show ?thesis
    using Some assms(2,3)
      saveHistorical_stored_noop
        [of s "w\<lparr>requests := requests w @ [(hist_url s r, clock w)]\<rparr>" a pts]
    by (simp add: getHistoricalPrices_eq Let_def)
qed

lemma daily_first_row:
  assumes "prices (snd (getDailyPrices axios s w)) \<noteq> prices w"
  shows "\<exists>a. find (\<lambda>x. a_symbol x = toUpperCase s) (assets (snd (getDailyPrices axios s w))) = Some a
           \<and> conflicts (a_id a) (clock w) (prices (snd (getDailyPrices axios s w)))
           \<and> p_assetId (last (prices (snd (getDailyPrices axios s w)))) = a_id a"
proof (cases "daily_fetch s (axios (chart_url @ s) (clock w))")
  case None
  then show ?thesis using assms by (simp add: getDailyPrices_eq Let_def)
next
  case (Some pd)
  let ?wr = "w\<lparr>requests := requests w @ [(chart_url @ s, clock w)]\<rparr>"
  have w1: "snd (getDailyPrices axios s w) = saveDailyPriceToDatabase pd ?wr"
    using Some by (simp add: getDailyPrices_eq Let_def)
  have "prices (saveDailyPriceToDatabase pd ?wr) \<noteq> prices ?wr" using assms w1 by simp
  then show ?thesis
    using saveDaily_stored [of pd ?wr] daily_fetch_symbol [OF Some] w1 by simp
qed

lemma daily_same_time:
  assumes "find (\<lambda>x. a_symbol x = toUpperCase s) (assets w) = Some a"
    and "conflicts (a_id a) (clock w) (prices w)"
  shows "prices (snd (getDailyPrices axios s w)) = prices w"
proof (cases "daily_fetch s (axios (chart_url @ s) (clock w))")
  case None
  then show ?thesis by (simp add: getDailyPrices_eq Let_def)
next
  case (Some pd)
  show ?thesis
    using Some assms daily_fetch_symbol [OF Some]
      saveDaily_conflict_noop [of pd "w\<lparr>requests := requests w @ [(chart_url @ s, clock w)]\<rparr>" a]
    by (simp add: getDailyPrices_eq Let_def)
qed

lemma daily_other_time:
  assumes "find (\<lambda>x. a_symbol x = toUpperCase s) (assets w) = Some a"
    and "clock w \<notin> set (map p_date (prices w))"
    and "list_all (\<lambda>f. \<not> f) (take 2 (faults w))"
    and "axios (chart_url @ s) (clock w) = Data (Some (result # rest))"
  shows "\<exists>row. prices (snd (getDailyPrices axios s w)) = prices w @ [row]
           \<and> p_date row = clock w \<and> p_assetId row = a_id a"
proof -
  obtain pd where pd: "daily_fetch s (axios (chart_url @ s) (clock w)) = Some pd"
    using assms(4) by simp
  have nc: "\<not> conflicts (a_id a) (clock w) (prices w)"
    using assms(2) by (force simp: conflicts_def list_ex_iff)
  show ?thesis
    using pd assms(1,3) nc daily_fetch_symbol [OF pd]
      saveDaily_adds [of pd "w\<lparr>requests := requests w @ [(chart_url @ s, clock w)]\<rparr>" a]
    by (simp add: getDailyPrices_eq Let_def)
qed

text \<open>
  Claim C1, as amended. A date is the timestamp of the row, in milliseconds. Whatever the
  provider answers and whichever storage calls fail, a historical fetch, a daily ingestion,
  a bulk historical load and a daily-close run keep the stored rows free of two rows with
  the same asset and date, and leave every row already stored where it was and as it was
  (nothing is overwritten). So a bulk historical load run again, whatever the provider
  then answers, leaves no two rows with the same asset and date and changes no row of the
  first run; and a historical fetch whose points are all stored already for the asset of
  the symbol writes no row. A daily ingestion that stored a row, repeated for the same
  symbol at the same timestamp, stores no second row and changes nothing, whatever the
  provider answers and whichever storage calls fail. Repeated at a time at which no stored
  row is dated (another time of the same day, for one), with a snapshot from the provider
  and its two storage calls going through, it stores a second row for the same asset,
  dated that time.
\<close>

theorem price_rows_unique:
  assumes "uniq_prices (prices w)"
  shows "uniq_prices (prices (snd (getHistoricalPrices axios s r w)))
       \<and> take (length (prices w)) (prices (snd (getHistoricalPrices axios s r w))) = prices w
       \<and> uniq_prices (prices (snd (getDailyPrices axios s w)))
       \<and> take (length (prices w)) (prices (snd (getDailyPrices axios s w))) = prices w
       \<and> uniq_prices (prices (snd (loadBulkHistoricalData axios symbols r w)))
       \<and> take (length (prices w)) (prices (snd (loadBulkHistoricalData axios symbols r w))) = prices w
       \<and> uniq_prices (prices (snd (executeDailyClose axios w)))
       \<and> take (length (prices w)) (prices (snd (executeDailyClose axios w))) = prices w
       \<and> uniq_prices (prices (snd (loadBulkHistoricalData axios2 symbols r
                                     (snd (loadBulkHistoricalData axios symbols r w)))))
       \<and> take (length (prices (snd (loadBulkHistoricalData axios symbols r w))))
              (prices (snd (loadBulkHistoricalData axios2 symbols r
                              (snd (loadBulkHistoricalData axios symbols r w)))))
           = prices (snd (loadBulkHistoricalData axios symbols r w))
       \<and> (fst (getHistoricalPrices axios s r w) = Inr pts
            \<and> find (\<lambda>x. a_symbol x = s) (assets w) = Some a
            \<and> (\<forall>d \<in> set pts. conflicts (a_id a) (h_date d) (prices w))
           \<longrightarrow> prices (snd (getHistoricalPrices axios s r w)) = prices w)
       \<and> (prices (snd (getDailyPrices axios s w)) \<noteq> prices w
           \<longrightarrow> prices (snd (getDailyPrices axios2 s
                              ((snd (getDailyPrices axios s w))\<lparr>clock := clock w, faults := fs\<rparr>)))
               = prices (snd (getDailyPrices axios s w)))
       \<and> (prices (snd (getDailyPrices axios s w)) \<noteq> prices w
            \<and> t \<notin> set (map p_date (prices (snd (getDailyPrices axios s w))))
            \<and> list_all (\<lambda>f. \<not> f) (take 2 fs)
            \<and> axios2 (chart_url @ s) t = Data (Some (result # rest))
           \<longrightarrow> butlast (prices (snd (getDailyPrices axios2 s
                                      ((snd (getDailyPrices axios s w))\<lparr>clock := t, faults := fs\<rparr>))))
                 = prices (snd (getDailyPrices axios s w))
               \<and> p_date (last (prices (snd (getDailyPrices axios2 s
                                      ((snd (getDailyPrices axios s w))\<lparr>clock := t, faults := fs\<rparr>)))))
                 = t
               \<and> p_assetId (last (prices (snd (getDailyPrices axios2 s
                                      ((snd (getDailyPrices axios s w))\<lparr>clock := t, faults := fs\<rparr>)))))
                 = p_assetId (last (prices (snd (getDailyPrices axios s w)))))"
proof -
  let ?w1 = "snd (getDailyPrices axios s w)"
  let ?b1 = "snd (loadBulkHistoricalData axios symbols r w)"
  have g1: "grows w (snd (getHistoricalPrices axios s r w))" by (rule getHistoricalPrices_grows)
  have g2: "grows w ?w1" by (rule getDailyPrices_grows)
  have g3: "grows w ?b1" by (rule loadBulk_grows)
  have g4: "grows w (snd (executeDailyClose axios w))" by (rule executeDailyClose_grows)
  have g5: "grows ?b1 (snd (loadBulkHistoricalData axios2 symbols r ?b1))" by (rule loadBulk_grows)
  have inv: "uniq_prices (prices (snd (getHistoricalPrices axios s r w)))
       \<and> take (length (prices w)) (prices (snd (getHistoricalPrices axios s r w))) = prices w
       \<and> uniq_prices (prices ?w1)
       \<and> take (length (prices w)) (prices ?w1) = prices w
       \<and> uniq_prices (prices ?b1)
       \<and> take (length (prices w)) (prices ?b1) = prices w
       \<and> uniq_prices (prices (snd (executeDailyClose axios w)))
       \<and> take (length (prices w)) (prices (snd (executeDailyClose axios w))) = prices w
       \<and> uniq_prices (prices (snd (loadBulkHistoricalData axios2 symbols r ?b1)))
       \<and> take (length (prices ?b1)) (prices (snd (loadBulkHistoricalData axios2 symbols r ?b1)))
           = prices ?b1"
    using assms g1 g2 g3 g4 g5 by (simp add: grows_def)
  have h: "prices (snd (getHistoricalPrices axios s r w)) = prices w"
    if "fst (getHistoricalPrices axios s r w) = Inr pts"
      "find (\<lambda>x. a_symbol x = s) (assets w) = Some a"
      "\<forall>d \<in> set pts. conflicts (a_id a) (h_date d) (prices w)"
    using that by (rule historical_stored_noop)
  have same: "prices (snd (getDailyPrices axios2 s (?w1\<lparr>clock := clock w, faults := fs\<rparr>)))
              = prices ?w1"
    if c: "prices ?w1 \<noteq> prices w"
  proof -
    obtain b where b: "find (\<lambda>x. a_symbol x = toUpperCase s) (assets ?w1) = Some b"
      "conflicts (a_id b) (clock w) (prices ?w1)"
      using daily_first_row [OF c] by blast
    show ?thesis
      using daily_same_time [of s "?w1\<lparr>clock := clock w, faults := fs\<rparr>" b axios2] b by simp
  qed
  have other: "butlast (prices (snd (getDailyPrices axios2 s (?w1\<lparr>clock := t, faults := fs\<rparr>))))
                 = prices ?w1
               \<and> p_date (last (prices (snd (getDailyPrices axios2 s (?w1\<lparr>clock := t, faults := fs\<rparr>)))))
                 = t
               \<and> p_assetId (last (prices (snd (getDailyPrices axios2 s (?w1\<lparr>clock := t, faults := fs\<rparr>)))))
                 = p_assetId (last (prices ?w1))"
    if c: "prices ?w1 \<noteq> prices w"
      and nt: "t \<notin> set (map p_date (prices ?w1))"
      and ok: "list_all (\<lambda>f. \<not> f) (take 2 fs)"
      and ax: "axios2 (chart_url @ s) t = Data (Some (result # rest))"
  proof -
    obtain b where b: "find (\<lambda>x. a_symbol x = toUpperCase s) (assets ?w1) = Some b"
      "p_assetId (last (prices ?w1)) = a_id b"
      using daily_first_row [OF c] by blast
    obtain row where "prices (snd (getDailyPrices axios2 s (?w1\<lparr>clock := t, faults := fs\<rparr>)))
                        = prices ?w1 @ [row]" "p_date row = t" "p_assetId row = a_id b"
      using daily_other_time [of s "?w1\<lparr>clock := t, faults := fs\<rparr>" b axios2 result rest]
        b(1) nt ok ax by auto
    then show ?thesis using b(2) by simp
  qed
  show ?thesis using inv h same other by blast
qed

lemma aapl_loaded_facts:
  "map key_of (prices aapl_loaded) = [(1, 1699900000000), (1, 1700072800000)]
   \<and> map h_date (projr (fst (getHistoricalPrices aapl_stub ''AAPL'' ''5y'' aapl_loaded)))
       = [1699900000000, 1700072800000]
   \<and> fst (getHistoricalPrices aapl_stub ''AAPL'' ''5y'' aapl_loaded)
       = Inr (projr (fst (getHistoricalPrices aapl_stub ''AAPL'' ''5y'' aapl_loaded)))
   \<and> find (\<lambda>x. a_symbol x = ''AAPL'') (assets aapl_loaded)
       = Some \<lparr>a_id = 1, a_symbol = ''AAPL'', a_name = ''AAPL'', a_type = STOCK\<rparr>"
  by (simp add: aapl_loaded_def key_of_def model_defs fixture_defs)

lemma daily_run1:
  "map p_date (prices (snd (getDailyPrices aapl_stub ''AAPL'' world0))) = [1700000000000]
   \<and> prices world0 = []"
  by (simp add: model_defs fixture_defs)

text \<open>
  Witness of C1. On the store that holds the two points of AAPL, a historical fetch of the
  same series writes no row, even with its insertion set to fail. On the empty store, a
  daily ingestion of AAPL stores one row; repeated at the same timestamp it leaves that one
  row, and repeated one second later, on the same day, it stores a second row.
\<close>

theorem price_rows_unique_witness:
  "uniq_prices (prices aapl_loaded)
   \<and> length (prices aapl_loaded) = 2
   \<and> prices (snd (getHistoricalPrices aapl_stub ''AAPL'' ''5y'' aapl_loaded)) = prices aapl_loaded
   \<and> uniq_prices (prices world0)
   \<and> map p_date (prices (snd (getDailyPrices aapl_stub ''AAPL'' world0))) = [1700000000000]
   \<and> map p_date (prices (snd (getDailyPrices aapl_stub ''AAPL''
        ((snd (getDailyPrices aapl_stub ''AAPL'' world0))\<lparr>clock := clock world0, faults := []\<rparr>))))
       = [1700000000000]
   \<and> day_of 1700000001000 = day_of (clock world0)
   \<and> map p_date (prices (snd (getDailyPrices aapl_stub ''AAPL''
        ((snd (getDailyPrices aapl_stub ''AAPL'' world0))\<lparr>clock := 1700000001000, faults := []\<rparr>))))
       = [1700000000000, 1700000001000]"
proof -
  let ?a = "\<lparr>a_id = 1, a_symbol = ''AAPL'', a_name = ''AAPL'', a_type = STOCK\<rparr>"
  let ?pts = "projr (fst (getHistoricalPrices aapl_stub ''AAPL'' ''5y'' aapl_loaded))"
  let ?w1 = "snd (getDailyPrices aapl_stub ''AAPL'' world0)"
  have k: "map key_of (prices aapl_loaded) = [(1, 1699900000000), (1, 1700072800000)]"
    using aapl_loaded_facts by blast
  have u: "uniq_prices (prices aapl_loaded)" by (simp add: uniq_prices_def k)
  have l: "length (prices aapl_loaded) = 2"
    using arg_cong [OF k, of length] by simp
  have f: "fst (getHistoricalPrices aapl_stub ''AAPL'' ''5y'' aapl_loaded) = Inr ?pts"
    and fa: "find (\<lambda>x. a_symbol x = ''AAPL'') (assets aapl_loaded) = Some ?a"
    and pd: "map h_date ?pts = [1699900000000, 1700072800000]"
    using aapl_loaded_facts by blast+
  have c: "\<forall>d \<in> set ?pts. conflicts (a_id ?a) (h_date d) (prices aapl_loaded)"
  proof
    fix d
    assume "d \<in> set ?pts"
    then have "h_date d \<in> set (map h_date ?pts)" by simp
    then have "h_date d = 1699900000000 \<or> h_date d = 1700072800000" by (simp only: pd) simp
    then show "conflicts (a_id ?a) (h_date d) (prices aapl_loaded)"
      by (auto simp: conflicts_iff k)
  qed
  have r1: "prices (snd (getHistoricalPrices aapl_stub ''AAPL'' ''5y'' aapl_loaded)) = prices aapl_loaded"
    using price_rows_unique [OF u, of aapl_stub "''AAPL''" "''5y''" _ _ ?pts ?a] f fa c by blast
  have u0: "uniq_prices (prices world0)" by (simp add: world0_def uniq_prices_def)
  have d1: "map p_date (prices ?w1) = [1700000000000]" and p0: "prices world0 = []"
    using daily_run1 by blast+
  have ne: "prices ?w1 \<noteq> prices world0" using d1 p0 by auto
  have nt: "1700000001000 \<notin> set (map p_date (prices ?w1))" by (simp only: d1) simp
  have ok: "list_all (\<lambda>f. \<not> f) (take 2 [])" by simp
  have ax: "aapl_stub (chart_url @ ''AAPL'') 1700000001000 = Data (Some (aapl_result # []))"
    by (simp add: aapl_stub_def)
  note t = price_rows_unique [OF u0, of aapl_stub "''AAPL''" "''5y''" "[]" aapl_stub _ _ "[]"
      1700000001000 aapl_result "[]"]
  have r2: "prices (snd (getDailyPrices aapl_stub ''AAPL'' (?w1\<lparr>clock := clock world0, faults := []\<rparr>)))
            = prices ?w1"
    using t ne by blast
  have r3: "butlast (prices (snd (getDailyPrices aapl_stub ''AAPL''
                (?w1\<lparr>clock := 1700000001000, faults := []\<rparr>)))) = prices ?w1
          \<and> p_date (last (prices (snd (getDailyPrices aapl_stub ''AAPL''
                (?w1\<lparr>clock := 1700000001000, faults := []\<rparr>))))) = 1700000001000"
    using t ne nt ok ax by blast
  have e: "map p_date (prices (snd (getDailyPrices aapl_stub ''AAPL''
        (?w1\<lparr>clock := 1700000001000, faults := []\<rparr>)))) = [1700000000000, 1700000001000]"
    by (simp add: model_defs fixture_defs)
  have dd: "day_of 1700000001000 = day_of (clock world0)" by (simp add: day_of_def world0_def)
  show ?thesis using u l r1 u0 d1 r2 dd e by simp
qed

text \<open>
  C1 as stated fails for the daily path: a row is dated the time of the call, not the day.
  With AAPL registered, two daily-close runs one after the other store two rows for the
  asset, one second apart on the same day.
\<close>

theorem second_daily_close_same_day_adds_row:
  "map p_assetId (prices first_close) = [1]
   \<and> map p_assetId (prices second_close) = [1, 1]
   \<and> map p_date (prices second_close) = [1700000000000, 1700000001000]
   \<and> map day_of (map p_date (prices second_close)) = [19675, 19675]"
  by (simp add: second_close_def first_close_def aapl_registered_def model_defs fixture_defs day_of_def)

subsection \<open>C2: the row of a daily ingestion\<close>

lemma saveDaily_row:
  "prices (saveDailyPriceToDatabase pd w) = prices w
   \<or> (\<exists>i aid. prices (saveDailyPriceToDatabase pd w) = prices w @
         [\<lparr>p_id = i, p_date = clock w, p_open = Num (regularMarketPrice pd),
           p_high = Num (regularMarketDayHigh pd), p_low = Num (regularMarketDayLow pd),
           p_close = Num (regularMarketPrice pd), p_volume = Num (regularMarketVolume pd),
           p_assetId = aid\<rparr>])"
  by (simp add: saveDailyPriceToDatabase_def ensureAssetExists_eq asset_upsert_def price_create_def
      storage_call_eq add_price_def Let_def split: list.splits option.splits bool.splits)

text \<open>
  Claim C2, as amended. When the provider answers a daily request with a snapshot and the
  ingestion stores a row, that row is the only change to the price table, it is dated the
  time of the call, its open and its close are the snapshot's \<^verbatim>\<open>regularMarketPrice\<close>,
  its high is the snapshot's \<^verbatim>\<open>regularMarketDayHigh\<close> and its low the snapshot's
  \<^verbatim>\<open>regularMarketDayLow\<close>.
\<close>

theorem daily_row_fields:
  assumes "axios (chart_url @ s) (clock w) = Data (Some (result # rest))"
    and "prices (snd (getDailyPrices axios s w)) \<noteq> prices w"
  shows "butlast (prices (snd (getDailyPrices axios s w))) = prices w
       \<and> p_date (last (prices (snd (getDailyPrices axios s w)))) = clock w
       \<and> p_open (last (prices (snd (getDailyPrices axios s w)))) = Num (m_regularMarketPrice (cr_meta result))
       \<and> p_close (last (prices (snd (getDailyPrices axios s w)))) = Num (m_regularMarketPrice (cr_meta result))
       \<and> p_high (last (prices (snd (getDailyPrices axios s w)))) = Num (m_regularMarketDayHigh (cr_meta result))
       \<and> p_low (last (prices (snd (getDailyPrices axios s w)))) = Num (m_regularMarketDayLow (cr_meta result))
       \<and> p_volume (last (prices (snd (getDailyPrices axios s w)))) = Num (m_regularMarketVolume (cr_meta result))"
proof -
  let ?wr = "w\<lparr>requests := requests w @ [(chart_url @ s, clock w)]\<rparr>"
  obtain pd where pd: "daily_fetch s (axios (chart_url @ s) (clock w)) = Some pd"
    "regularMarketPrice pd = m_regularMarketPrice (cr_meta result)"
    "regularMarketDayHigh pd = m_regularMarketDayHigh (cr_meta result)"
    "regularMarketDayLow pd = m_regularMarketDayLow (cr_meta result)"
    "regularMarketVolume pd = m_regularMarketVolume (cr_meta result)"
    using assms(1) by simp
  have w': "snd (getDailyPrices axios s w) = saveDailyPriceToDatabase pd ?wr"
    using pd(1) by (simp add: getDailyPrices_eq Let_def)
  show ?thesis
    using saveDaily_row [of pd ?wr] assms(2) pd(2-5) unfolding w' by auto
qed

text \<open>Witness of C2: the snapshot of AAPL, ingested into the empty store.\<close>

theorem daily_row_fields_witness:
  "aapl_stub (chart_url @ ''AAPL'') (clock world0) = Data (Some (aapl_result # []))
   \<and> prices (snd (getDailyPrices aapl_stub ''AAPL'' world0)) \<noteq> prices world0
   \<and> p_open (last (prices (snd (getDailyPrices aapl_stub ''AAPL'' world0)))) = Num 150.25
   \<and> p_close (last (prices (snd (getDailyPrices aapl_stub ''AAPL'' world0)))) = Num 150.25
   \<and> p_high (last (prices (snd (getDailyPrices aapl_stub ''AAPL'' world0)))) = Num 151
   \<and> p_low (last (prices (snd (getDailyPrices aapl_stub ''AAPL'' world0)))) = Num 149"
proof -
  have a: "aapl_stub (chart_url @ ''AAPL'') (clock world0) = Data (Some (aapl_result # []))"
    by (simp add: aapl_stub_def)
  have b: "prices (snd (getDailyPrices aapl_stub ''AAPL'' world0)) \<noteq> prices world0"
    by (simp add: model_defs fixture_defs)
  have m: "m_regularMarketPrice (cr_meta aapl_result) = 150.25"
    "m_regularMarketDayHigh (cr_meta aapl_result) = 151"
    "m_regularMarketDayLow (cr_meta aapl_result) = 149"
    by (simp_all add: aapl_result_def aapl_meta_def)
  show ?thesis using a b daily_row_fields [OF a b] by (simp only: m) simp
qed

text \<open>
  C2 as stated fails: with a snapshot whose price is 150.25, day high 151 and day low 149,
  the stored row has high 151 and low 149, not 150.25.
\<close>

theorem daily_row_high_low_counterexample:
  "m_regularMarketPrice (cr_meta aapl_result) = 150.25
   \<and> map p_open (prices (snd (getDailyPrices aapl_stub ''AAPL'' world0))) = [Num 150.25]
   \<and> map p_high (prices (snd (getDailyPrices aapl_stub ''AAPL'' world0))) = [Num 151]
   \<and> map p_low (prices (snd (getDailyPrices aapl_stub ''AAPL'' world0))) = [Num 149]
   \<and> Num 151 \<noteq> Num 150.25 \<and> Num 149 \<noteq> Num 150.25"
  by (simp add: model_defs fixture_defs)

subsection \<open>C3: one outcome per symbol\<close>

lemma bulk_loop_acc:
  "bulk_loop axios r symbols results w =
     (results @ fst (bulk_loop axios r symbols [] w), snd (bulk_loop axios r symbols [] w))"
proof (induction symbols arbitrary: results w)
  case Nil
  then show ?case by simp
next
  case (Cons s symbols)
  show ?case
  proof (cases "getHistoricalPrices axios s r w")
    case (Pair x w1)
    then show ?thesis
      by (cases x) (simp_all add: Cons.IH [of "results @ _"] Cons.IH [of "[_]"])
  qed
qed

lemma bulk_loop_append:
  "bulk_loop axios r (xs @ ys) results w =
     bulk_loop axios r ys (fst (bulk_loop axios r xs results w)) (snd (bulk_loop axios r xs results w))"
proof (induction xs arbitrary: results w)
  case Nil
  then show ?case by simp
next
  case (Cons s xs)
  show ?case
  proof (cases "getHistoricalPrices axios s r w")
    case (Pair x w1)
    then show ?thesis by (cases x) (simp_all add: Cons.IH)
  qed
qed

lemma bulk_loop_symbols:
  "map r_symbol (fst (bulk_loop axios r symbols results w)) = map r_symbol results @ symbols"
proof (induction symbols arbitrary: results w)
  case Nil
  then show ?case by simp
next
  case (Cons s symbols)
  show ?case
  proof (cases "getHistoricalPrices axios s r w")
    case (Pair x w1)
    then show ?thesis by (cases x) (simp_all add: Cons.IH)
  qed
qed

lemma outcome_ok_intros:
  "outcome_ok \<lparr>r_symbol = s, r_records = Some n, r_status = success, r_error = None\<rparr>"
  "outcome_ok \<lparr>r_symbol = s, r_records = None, r_status = failed, r_error = Some m\<rparr>"
  by (simp_all add: outcome_ok_def)

lemma bulk_loop_outcomes:
  "list_all outcome_ok results \<Longrightarrow> list_all outcome_ok (fst (bulk_loop axios r symbols results w))"
proof (induction symbols arbitrary: results w)
  case Nil
  then show ?case by simp
next
  case (Cons s symbols)
  show ?case
  proof (cases "getHistoricalPrices axios s r w")
    case (Pair x w1)
    then show ?thesis using Cons.prems
      by (cases x) (simp_all add: Cons.IH outcome_ok_intros)
  qed
qed

text \<open>
  Claim C3. For every symbol list, provider and state of the store (failing storage calls
  included), the bulk historical load returns (it never throws), and returns exactly one
  outcome per input symbol, in input order; each outcome is a success with a record count
  and no error, or a failure with an error message and no record count. The outcomes of
  the symbols after any prefix of the list are those of a load of the rest, started where
  the prefix ended: a failure stops nothing.
\<close>

theorem bulk_load_outcomes:
  "\<exists>results.
      fst (loadBulkHistoricalData axios symbols r w) = Inr results
      \<and> map r_symbol results = symbols
      \<and> length results = length symbols
      \<and> list_all outcome_ok results
      \<and> (\<forall>xs ys. symbols = xs @ ys \<longrightarrow>
            results = projr (fst (loadBulkHistoricalData axios xs r w))
                      @ projr (fst (loadBulkHistoricalData axios ys r
                                     (snd (loadBulkHistoricalData axios xs r w)))))"
proof -
  let ?res = "fst (bulk_loop axios r symbols [] w)"
  have sy: "map r_symbol ?res = symbols" by (simp add: bulk_loop_symbols)
  have "length (map r_symbol ?res) = length symbols" by (simp only: sy)
  then have len: "length ?res = length symbols" by simp
  have ok: "list_all outcome_ok ?res" by (simp add: bulk_loop_outcomes)
  have app: "?res = projr (fst (loadBulkHistoricalData axios xs r w))
                      @ projr (fst (loadBulkHistoricalData axios ys r
                                     (snd (loadBulkHistoricalData axios xs r w))))"
    if "symbols = xs @ ys" for xs ys
    using that bulk_loop_acc [of axios r ys "fst (bulk_loop axios r xs [] w)"]
    by (simp add: loadBulk_eq bulk_loop_append)
  show ?thesis using sy len ok app by (simp add: loadBulk_eq)
qed

text \<open>Witness of C3: a load of ZZZZ, for which the provider has no result, then AAPL.\<close>

theorem bulk_load_outcomes_witness:
  "map r_symbol (projr (fst (loadBulkHistoricalData zzzz_aapl_stub [''ZZZZ'', ''AAPL''] ''5y'' world0)))
     = [''ZZZZ'', ''AAPL'']
   \<and> map r_status (projr (fst (loadBulkHistoricalData zzzz_aapl_stub [''ZZZZ'', ''AAPL''] ''5y'' world0)))
     = [failed, success]
   \<and> map r_records (projr (fst (loadBulkHistoricalData zzzz_aapl_stub [''ZZZZ'', ''AAPL''] ''5y'' world0)))
     = [None, Some 2]"
proof -
  have e: "map r_status (projr (fst (loadBulkHistoricalData zzzz_aapl_stub [''ZZZZ'', ''AAPL''] ''5y'' world0)))
     = [failed, success]
     \<and> map r_records (projr (fst (loadBulkHistoricalData zzzz_aapl_stub [''ZZZZ'', ''AAPL''] ''5y'' world0)))
     = [None, Some 2]"
    by (simp add: model_defs fixture_defs zzzz_aapl_stub_def)
  show ?thesis
    using e bulk_load_outcomes [of zzzz_aapl_stub "[''ZZZZ'', ''AAPL'']" "''5y''" world0]
    by auto
qed

subsection \<open>C5: a failed daily write is swallowed\<close>

text \<open>
  Claim C5. When the provider answers a daily request with a snapshot,
  \<^verbatim>\<open>getDailyPrices\<close> returns the price data built from it whatever the storage calls do.
  When the registration of the asset fails, or the registration goes through and the
  creation of the row fails, no price row is stored, and the price data is returned all
  the same.
\<close>

theorem daily_write_failure_swallowed:
  assumes "axios (chart_url @ s) (clock w) = Data (Some (result # rest))"
  shows "fst (getDailyPrices axios s w)
           = Inr \<lparr>pd_symbol = toUpperCase s,
                  regularMarketPrice = m_regularMarketPrice (cr_meta result),
                  regularMarketDayHigh = m_regularMarketDayHigh (cr_meta result),
                  regularMarketDayLow = m_regularMarketDayLow (cr_meta result),
                  regularMarketVolume = m_regularMarketVolume (cr_meta result),
                  previousClose = m_previousClose (cr_meta result),
                  regularMarketTime = m_regularMarketTime (cr_meta result) * 1000,
                  currency = m_currency (cr_meta result)\<rparr>
       \<and> (\<forall>fs. faults w = True # fs \<or> faults w = False # True # fs \<longrightarrow>
             prices (snd (getDailyPrices axios s w)) = prices w)"
  using assms
  by (auto simp: getDailyPrices_eq Let_def saveDailyPriceToDatabase_def ensureAssetExists_eq
      asset_upsert_def price_create_def storage_call_def split: option.splits)

text \<open>Witness of C5: the registration goes through, the creation of the row fails; the
  price data comes back and the price table stays empty. In a daily-close run the symbol
  is counted as processed, with no row stored.\<close>

theorem daily_write_failure_swallowed_witness:
  "aapl_stub (chart_url @ ''AAPL'') (clock write_fails) = Data (Some (aapl_result # []))
   \<and> faults write_fails = False # True # []
   \<and> regularMarketPrice (projr (fst (getDailyPrices aapl_stub ''AAPL'' write_fails))) = 150.25
   \<and> isl (fst (getDailyPrices aapl_stub ''AAPL'' write_fails)) = False
   \<and> prices (snd (getDailyPrices aapl_stub ''AAPL'' write_fails)) = []
   \<and> fst (executeDailyClose aapl_stub close_write_fails) = Some (1, 0)
   \<and> prices (snd (executeDailyClose aapl_stub close_write_fails)) = []"
proof -
  have c: "fst (executeDailyClose aapl_stub close_write_fails) = Some (1, 0)
   \<and> prices (snd (executeDailyClose aapl_stub close_write_fails)) = []"
    by (simp add: close_write_fails_def aapl_registered_def model_defs fixture_defs)
  have a: "aapl_stub (chart_url @ ''AAPL'') (clock write_fails) = Data (Some (aapl_result # []))"
    by (simp add: aapl_stub_def)
  have f: "faults write_fails = False # True # []" by (simp add: write_fails_def)
  have p: "prices write_fails = []" by (simp add: write_fails_def world0_def)
  have m: "m_regularMarketPrice (cr_meta aapl_result) = 150.25"
    by (simp add: aapl_result_def aapl_meta_def)
  show ?thesis
    using a f p m c
      daily_write_failure_swallowed [of aapl_stub "''AAPL''" write_fails aapl_result "[]"]
    by simp
qed

subsection \<open>C4: the normalized series\<close>

lemma length_filter_not_null:
  "length (filter (\<lambda>x. f x \<noteq> Null) xs) = length xs - length (filter (\<lambda>x. f x = Null) xs)"
  using sum_length_filter_compl [of "\<lambda>x. f x \<noteq> Null" xs] by simp

lemma null_points_count:
  "length (filter (\<lambda>item. h_open item = Null) (map (mk_point q) (enumerate 0 ts)))
   = length (filter (\<lambda>i. at_index (q_open q) i = Null) [0..<length ts])"
proof -
  have fn: "(\<lambda>item. h_open item = Null) \<circ> mk_point q = (\<lambda>i. at_index (q_open q) i = Null) \<circ> fst"
    by (rule ext) (simp add: mk_point_def)
  have "length (filter (\<lambda>item. h_open item = Null) (map (mk_point q) (enumerate 0 ts)))
        = length (filter ((\<lambda>i. at_index (q_open q) i = Null) \<circ> fst) (enumerate 0 ts))"
    by (simp only: length_filter_map fn)
  also have "\<dots> = length (filter (\<lambda>i. at_index (q_open q) i = Null) (map fst (enumerate 0 ts)))"
    by (simp only: length_filter_map)
  also have "\<dots> = length (filter (\<lambda>i. at_index (q_open q) i = Null) [0..<length ts])"
    by (simp add: map_fst_enumerate)
  finally show ?thesis .
qed

lemma normalize_length:
  "length (filter (\<lambda>item. h_open item \<noteq> Null) (map (mk_point q) (enumerate 0 ts)))
   = length ts - length (filter (\<lambda>i. at_index (q_open q) i = Null) [0..<length ts])"
  by (simp only: length_filter_not_null null_points_count length_map length_enumerate)

lemma null_count_index:
  assumes "length xs = n"
  shows "length (filter (\<lambda>i. at_index xs i = Null) [0..<n]) = length (filter (\<lambda>v. v = Null) xs)"
proof -
  have "filter (\<lambda>i. at_index xs i = Null) [0..<n] = filter ((\<lambda>v. v = Null) \<circ> (!) xs) [0..<n]"
    using assms by (intro filter_cong) (simp_all add: at_index_def)
  then have "length (filter (\<lambda>i. at_index xs i = Null) [0..<n])
             = length (filter (\<lambda>v. v = Null) (map ((!) xs) [0..<length xs]))"
    using assms by (simp only: length_filter_map)
  then show ?thesis by (simp only: map_nth)
qed

lemma normalize_dates:
  "map h_date (filter (\<lambda>item. h_open item \<noteq> Null) (map (mk_point q) (enumerate 0 ts)))
   = map (\<lambda>t. t * 1000)
       (map snd (filter (\<lambda>it. at_index (q_open q) (fst it) \<noteq> Null) (enumerate 0 ts)))"
  by (simp add: filter_map o_def mk_point_def)

lemma sorted_times_1000: "sorted (ts :: int list) \<Longrightarrow> sorted (map (\<lambda>t. t * 1000) ts)"
  by (induction ts) auto

lemma normalize_sorted:
  assumes "sorted ts"
  shows "sorted (map h_date (filter (\<lambda>item. h_open item \<noteq> Null) (map (mk_point q) (enumerate 0 ts))))"
proof -
  have "sorted (map snd (enumerate 0 ts))" using assms by (simp add: map_snd_enumerate)
  then have "sorted (map snd (filter (\<lambda>it. at_index (q_open q) (fst it) \<noteq> Null) (enumerate 0 ts)))"
    by (rule sorted_filter)
  then show ?thesis by (simp only: normalize_dates sorted_times_1000)
qed

lemma mk_point_zip:
  assumes "length (q_open q) = length ts" "length (q_high q) = length ts"
    "length (q_low q) = length ts" "length (q_close q) = length ts" "length (q_volume q) = length ts"
  shows "map (mk_point q) (enumerate 0 ts) = zip_points ts q"
  using assms
  by (intro nth_equalityI) (simp_all add: zip_points_def mk_point_def at_index_def nth_enumerate_eq)

text \<open>
  Claim C4, as amended. When the provider answers a historical request with a result whose
  series has N timestamps, and K of the positions below N hold a null open, the fetch
  returns N - K points, hands exactly these to the save step, and the outcome of a bulk
  load counts N - K records. When the five arrays have the length of the timestamp array,
  the points are the positional zip of the six arrays without the points whose open is
  null, and K is the number of nulls in the open array. The points keep the order of the
  provider's timestamp array (the dates are the kept timestamps, in seconds, times 1000), so
  they are in ascending order whenever the provider's timestamps are; the code does not
  sort.
\<close>

theorem historical_series_normalized:
  assumes "axios (hist_url s r) (clock w) = Data (Some (result # rest))"
    and "cr_quote result = quotes # qs"
  shows "fst (getHistoricalPrices axios s r w) = Inr (projr (fst (getHistoricalPrices axios s r w)))
      \<and> snd (getHistoricalPrices axios s r w)
          = saveHistoricalPricesToDatabase s (projr (fst (getHistoricalPrices axios s r w)))
              (w\<lparr>requests := requests w @ [(hist_url s r, clock w)]\<rparr>)
      \<and> length (projr (fst (getHistoricalPrices axios s r w)))
          = length (cr_timestamp result)
            - length (filter (\<lambda>i. at_index (q_open quotes) i = Null) [0..<length (cr_timestamp result)])
      \<and> map r_records (projr (fst (loadBulkHistoricalData axios [s] r w)))
          = [Some (length (projr (fst (getHistoricalPrices axios s r w))))]
      \<and> map r_status (projr (fst (loadBulkHistoricalData axios [s] r w))) = [success]
      \<and> map h_date (projr (fst (getHistoricalPrices axios s r w)))
          = map (\<lambda>t. t * 1000)
              (map snd (filter (\<lambda>it. at_index (q_open quotes) (fst it) \<noteq> Null)
                          (enumerate 0 (cr_timestamp result))))
      \<and> (sorted (cr_timestamp result)
           \<longrightarrow> sorted (map h_date (projr (fst (getHistoricalPrices axios s r w)))))
      \<and> (length (q_open quotes) = length (cr_timestamp result)
           \<and> length (q_high quotes) = length (cr_timestamp result)
           \<and> length (q_low quotes) = length (cr_timestamp result)
           \<and> length (q_close quotes) = length (cr_timestamp result)
           \<and> length (q_volume quotes) = length (cr_timestamp result)
           \<longrightarrow> projr (fst (getHistoricalPrices axios s r w))
                 = filter (\<lambda>item. h_open item \<noteq> Null) (zip_points (cr_timestamp result) quotes)
               \<and> length (projr (fst (getHistoricalPrices axios s r w)))
                 = length (cr_timestamp result) - length (filter (\<lambda>v. v = Null) (q_open quotes)))"
proof -
  let ?ts = "cr_timestamp result"
  let ?pts = "filter (\<lambda>item. h_open item \<noteq> Null) (map (mk_point quotes) (enumerate 0 ?ts))"
  let ?wr = "w\<lparr>requests := requests w @ [(hist_url s r, clock w)]\<rparr>"
  have f: "hist_fetch (axios (hist_url s r) (clock w)) = Some ?pts"
    using assms by (simp add: normalize_def)
  have g: "getHistoricalPrices axios s r w = (Inr ?pts, saveHistoricalPricesToDatabase s ?pts ?wr)"
    using f by (simp add: getHistoricalPrices_eq Let_def)
  have pe: "projr (fst (getHistoricalPrices axios s r w)) = ?pts" by (simp add: g)
  have g1: "fst (getHistoricalPrices axios s r w) = Inr ?pts" by (simp add: g)
  have g2: "snd (getHistoricalPrices axios s r w) = saveHistoricalPricesToDatabase s ?pts ?wr"
    by (simp add: g)
  have b: "map r_records (projr (fst (loadBulkHistoricalData axios [s] r w))) = [Some (length ?pts)]
           \<and> map r_status (projr (fst (loadBulkHistoricalData axios [s] r w))) = [success]"
    using g by (simp add: loadBulk_eq)
  have l: "length ?pts = length ?ts
           - length (filter (\<lambda>i. at_index (q_open quotes) i = Null) [0..<length ?ts])"
    by (rule normalize_length)
  have z: "?pts = filter (\<lambda>item. h_open item \<noteq> Null) (zip_points ?ts quotes)
           \<and> length ?pts = length ?ts - length (filter (\<lambda>v. v = Null) (q_open quotes))"
    if "length (q_open quotes) = length ?ts" "length (q_high quotes) = length ?ts"
      "length (q_low quotes) = length ?ts" "length (q_close quotes) = length ?ts"
      "length (q_volume quotes) = length ?ts"
    using that l mk_point_zip [of quotes ?ts] null_count_index [of "q_open quotes" "length ?ts"]
    by simp
  show ?thesis
    unfolding pe
    using g1 g2 l b normalize_dates [of quotes ?ts] normalize_sorted [of ?ts quotes] z
    by blast
qed

text \<open>Witness of C4: three points, the second with a null open.\<close>

theorem historical_series_normalized_witness:
  "aapl_stub (hist_url ''AAPL'' ''5y'') (clock world0) = Data (Some (aapl_result # []))
   \<and> cr_quote aapl_result = aapl_quote # []
   \<and> length (cr_timestamp aapl_result) = 3
   \<and> length (filter (\<lambda>v. v = Null) (q_open aapl_quote)) = 1
   \<and> map r_records (projr (fst (loadBulkHistoricalData aapl_stub [''AAPL''] ''5y'' world0))) = [Some 2]
   \<and> map h_date (projr (fst (getHistoricalPrices aapl_stub ''AAPL'' ''5y'' world0)))
       = [1699900000000, 1700072800000]"
proof -
  have a: "aapl_stub (hist_url ''AAPL'' ''5y'') (clock world0) = Data (Some (aapl_result # []))"
    by (simp add: aapl_stub_def)
  have q: "cr_quote aapl_result = aapl_quote # []" by (simp add: aapl_result_def)
  have e: "length (cr_timestamp aapl_result) = 3
     \<and> length (filter (\<lambda>v. v = Null) (q_open aapl_quote)) = 1
     \<and> length (q_open aapl_quote) = 3 \<and> length (q_high aapl_quote) = 3
     \<and> length (q_low aapl_quote) = 3 \<and> length (q_close aapl_quote) = 3
     \<and> length (q_volume aapl_quote) = 3"
    by (simp add: aapl_result_def aapl_quote_def)
  have d: "map h_date (projr (fst (getHistoricalPrices aapl_stub ''AAPL'' ''5y'' world0)))
       = [1699900000000, 1700072800000]"
    by (simp add: model_defs fixture_defs)
  note t = historical_series_normalized
    [of aapl_stub "''AAPL''" "''5y''" world0 aapl_result "[]" aapl_quote "[]", OF a q]
  have r: "map r_records (projr (fst (loadBulkHistoricalData aapl_stub [''AAPL''] ''5y'' world0)))
           = [Some (length (projr (fst (getHistoricalPrices aapl_stub ''AAPL'' ''5y'' world0))))]"
    using t by blast
  have e5: "length (q_open aapl_quote) = length (cr_timestamp aapl_result)
     \<and> length (q_high aapl_quote) = length (cr_timestamp aapl_result)
     \<and> length (q_low aapl_quote) = length (cr_timestamp aapl_result)
     \<and> length (q_close aapl_quote) = length (cr_timestamp aapl_result)
     \<and> length (q_volume aapl_quote) = length (cr_timestamp aapl_result)"
    by (simp add: aapl_result_def aapl_quote_def)
  have "length (projr (fst (getHistoricalPrices aapl_stub ''AAPL'' ''5y'' world0)))
        = length (cr_timestamp aapl_result) - length (filter (\<lambda>v. v = Null) (q_open aapl_quote))"
    using t e5 by blast
  then have l: "length (projr (fst (getHistoricalPrices aapl_stub ''AAPL'' ''5y'' world0))) = 2"
    using e by simp
  show ?thesis using a q e d r l by simp
qed

text \<open>
  C4 as stated fails in its last part: the points come out in the provider's order. With
  the timestamps 1700072800, 1699900000, 1699986400 (and a null open at the second), the
  dates returned are 1700072800000, 1699986400000, which is not ascending.
\<close>

theorem historical_series_order_counterexample:
  "map h_date (projr (fst (getHistoricalPrices unsorted_stub ''AAPL'' ''5y'' world0)))
     = [1700072800000, 1699986400000]
   \<and> map p_date (prices (snd (getHistoricalPrices unsorted_stub ''AAPL'' ''5y'' world0)))
     = [1700072800000, 1699986400000]
   \<and> \<not> sorted [1700072800000 :: int, 1699986400000]"
  by (simp add: model_defs fixture_defs unsorted_stub_def unsorted_result_def)

subsection \<open>C6: registration of an asset\<close>

lemma count_distinct:
  "distinct (map f xs) \<Longrightarrow> length (filter (\<lambda>x. f x = s) xs) = (if s \<in> f ` set xs then 1 else 0)"
  by (induction xs) (auto simp: image_iff)

lemma ensure_distinct:
  "distinct (map a_symbol (assets w)) \<Longrightarrow> distinct (map a_symbol (assets (snd (ensureAssetExists s w))))"
  by (auto simp: ensure_cases find_None_symbol split: option.splits)

lemma ensure_faults: "faults (snd (ensureAssetExists s w)) = tl (faults w)"
  by (simp add: ensure_cases split: option.splits)

lemma register_batch_distinct:
  "distinct (map a_symbol (assets w)) \<Longrightarrow> distinct (map a_symbol (assets (register_batch xs w)))"
proof (induction xs arbitrary: w)
  case Nil
  then show ?case by simp
next
  case (Cons x xs)
  obtain res w1 where e: "ensureAssetExists x w = (res, w1)" by force
  have "distinct (map a_symbol (assets w1))" using ensure_distinct [OF Cons.prems, of x] e by simp
  then show ?case using e Cons.IH [of w1] by (cases res) simp_all
qed

lemma register_batch_present:
  "s \<in> a_symbol ` set (assets w) \<Longrightarrow> s \<in> a_symbol ` set (assets (register_batch xs w))"
proof (induction xs arbitrary: w)
  case Nil
  then show ?case by simp
next
  case (Cons x xs)
  obtain res w1 where e: "ensureAssetExists x w = (res, w1)" by force
  have "s \<in> a_symbol ` set (assets w1)"
    using Cons.prems e by (auto simp: ensure_cases split: if_splits option.splits)
  then show ?case using e Cons.IH [of w1] by (cases res) simp_all
qed

lemma register_first:
  assumes "faults w = []"
  shows "s \<in> a_symbol ` set (assets (register_batch (s # xs) w))"
proof -
  obtain a w1 where e: "ensureAssetExists s w = (Inr a, w1)"
    "find (\<lambda>a. a_symbol a = s) (assets w1) = Some a"
    using ensure_nofault [OF assms, of s] by blast
  have "s \<in> a_symbol ` set (assets w1)" using find_Some_symbol [OF e(2)] by force
  then show ?thesis using e(1) register_batch_present [of s w1 xs] by simp
qed

text \<open>
  Claim C6. On a store whose symbols are distinct, \<^verbatim>\<open>ensureAssetExists\<close> keeps them
  distinct and makes exactly one storage call (the upsert). When it returns an asset, the
  asset is stored, carries the symbol, and is the only stored asset of that symbol; when
  no asset of the symbol was stored, the asset is appended with the symbol as its name and
  the type STOCK, and otherwise the table is unchanged. When it throws, the table is
  unchanged. After any number of calls for one symbol, at most one asset of that symbol is
  stored, and exactly one when at least one call was made and no storage call failed.
\<close>

theorem asset_registration_idempotent:
  assumes "distinct (map a_symbol (assets w))"
  shows "distinct (map a_symbol (assets (snd (ensureAssetExists s w))))
       \<and> faults (snd (ensureAssetExists s w)) = tl (faults w)
       \<and> (\<forall>a. fst (ensureAssetExists s w) = Inr a \<longrightarrow>
             a \<in> set (assets (snd (ensureAssetExists s w))) \<and> a_symbol a = s
             \<and> length (filter (\<lambda>x. a_symbol x = s) (assets (snd (ensureAssetExists s w)))) = 1
             \<and> (s \<notin> a_symbol ` set (assets w) \<longrightarrow>
                   a_name a = s \<and> a_type a = STOCK
                   \<and> assets (snd (ensureAssetExists s w)) = assets w @ [a])
             \<and> (s \<in> a_symbol ` set (assets w) \<longrightarrow>
                   assets (snd (ensureAssetExists s w)) = assets w))
       \<and> (\<forall>e. fst (ensureAssetExists s w) = Inl e \<longrightarrow>
             assets (snd (ensureAssetExists s w)) = assets w)
       \<and> length (filter (\<lambda>x. a_symbol x = s) (assets (register_batch (replicate n s) w))) \<le> 1
       \<and> (faults w = [] \<and> 0 < n \<longrightarrow>
             length (filter (\<lambda>x. a_symbol x = s) (assets (register_batch (replicate n s) w))) = 1)"
proof -
  have d: "distinct (map a_symbol (assets (snd (ensureAssetExists s w))))"
    using assms by (rule ensure_distinct)
  have one: "a \<in> set (assets (snd (ensureAssetExists s w))) \<and> a_symbol a = s
             \<and> length (filter (\<lambda>x. a_symbol x = s) (assets (snd (ensureAssetExists s w)))) = 1
             \<and> (s \<notin> a_symbol ` set (assets w) \<longrightarrow>
                   a_name a = s \<and> a_type a = STOCK
                   \<and> assets (snd (ensureAssetExists s w)) = assets w @ [a])
             \<and> (s \<in> a_symbol ` set (assets w) \<longrightarrow>
                   assets (snd (ensureAssetExists s w)) = assets w)"
    if r: "fst (ensureAssetExists s w) = Inr a" for a
  proof -
    have m: "a \<in> set (assets (snd (ensureAssetExists s w))) \<and> a_symbol a = s"
      using r by (auto simp: ensure_cases split: if_splits option.splits dest: find_Some_symbol)
    then have "s \<in> a_symbol ` set (assets (snd (ensureAssetExists s w)))" by force
    then have c: "length (filter (\<lambda>x. a_symbol x = s) (assets (snd (ensureAssetExists s w)))) = 1"
      using count_distinct [OF d, of s] by simp
    have "s \<notin> a_symbol ` set (assets w) \<longrightarrow>
            a_name a = s \<and> a_type a = STOCK \<and> assets (snd (ensureAssetExists s w)) = assets w @ [a]"
      using r by (auto simp: ensure_cases find_None_symbol [symmetric] split: if_splits option.splits)
    moreover have "s \<in> a_symbol ` set (assets w) \<longrightarrow> assets (snd (ensureAssetExists s w)) = assets w"
      using r by (auto simp: ensure_cases find_None_symbol split: if_splits option.splits)
    ultimately show ?thesis using m c by simp
  qed
  have err: "assets (snd (ensureAssetExists s w)) = assets w"
    if "fst (ensureAssetExists s w) = Inl e" for e
    using that by (auto simp: ensure_cases split: if_splits option.splits)
  have dn: "distinct (map a_symbol (assets (register_batch (replicate n s) w)))"
    using assms by (rule register_batch_distinct)
  have le: "length (filter (\<lambda>x. a_symbol x = s) (assets (register_batch (replicate n s) w))) \<le> 1"
    using count_distinct [OF dn, of s] by simp
  have eq: "length (filter (\<lambda>x. a_symbol x = s) (assets (register_batch (replicate n s) w))) = 1"
    if f0: "faults w = []" and n0: "0 < n"
  proof -
    obtain m where "n = Suc m" using n0 by (cases n) simp_all
    then have "s \<in> a_symbol ` set (assets (register_batch (replicate n s) w))"
      using register_first [OF f0, of s "replicate m s"] by simp
    then show ?thesis using count_distinct [OF dn, of s] by simp
  qed
  show ?thesis using d ensure_faults [of s w] one err le eq by blast
qed

text \<open>Witness of C6: three registrations of AAPL on the empty store.\<close>

theorem asset_registration_idempotent_witness:
  "distinct (map a_symbol (assets world0)) \<and> faults world0 = [] \<and> (0::nat) < 3
   \<and> length (filter (\<lambda>x. a_symbol x = ''AAPL'') (assets (register_batch (replicate 3 ''AAPL'') world0))) = 1
   \<and> assets (snd (ensureAssetExists ''AAPL'' world0))
       = [\<lparr>a_id = 1, a_symbol = ''AAPL'', a_name = ''AAPL'', a_type = STOCK\<rparr>]"
proof -
  have d: "distinct (map a_symbol (assets world0))" by (simp add: world0_def)
  have f: "faults world0 = []" by (simp add: world0_def)
  have e: "assets (snd (ensureAssetExists ''AAPL'' world0))
       = [\<lparr>a_id = 1, a_symbol = ''AAPL'', a_name = ''AAPL'', a_type = STOCK\<rparr>]"
    by (simp add: model_defs fixture_defs)
  show ?thesis
    using d f e asset_registration_idempotent [OF d, of "''AAPL''" 3] by simp
qed

subsection \<open>C7: pacing between fetches\<close>

text \<open>
  Claim C7 fails in the bulk historical load: the pause stands inside the \<^verbatim>\<open>try\<close>,
  after a success, so nothing is awaited after a failure. A load of ZZZZ (no result) and
  then AAPL issues the two requests at the same time of the clock.
\<close>

theorem bulk_load_no_pause_after_failure:
  "map snd (requests (snd (loadBulkHistoricalData zzzz_aapl_stub [''ZZZZ'', ''AAPL''] ''5y'' world0)))
     = [1700000000000, 1700000000000]
   \<and> map r_status (projr (fst (loadBulkHistoricalData zzzz_aapl_stub [''ZZZZ'', ''AAPL''] ''5y'' world0)))
     = [failed, success]
   \<and> \<not> paced 1000 (requests (snd (loadBulkHistoricalData zzzz_aapl_stub [''ZZZZ'', ''AAPL''] ''5y'' world0)))
   \<and> map snd (requests (snd (loadBulkHistoricalData zzzz_aapl_stub [''AAPL'', ''ZZZZ''] ''5y'' world0)))
     = [1700000000000, 1700000001000]"
  by (simp add: model_defs fixture_defs zzzz_aapl_stub_def)

lemma paced_snoc:
  "paced d (xs @ [y]) \<longleftrightarrow> paced d xs \<and> (xs = [] \<or> snd (last xs) + d \<le> snd y)"
  by (induction d xs rule: paced.induct) auto

lemma saveDaily_frame:
  "clock (saveDailyPriceToDatabase pd w) = clock w
   \<and> requests (saveDailyPriceToDatabase pd w) = requests w"
  by (simp add: saveDailyPriceToDatabase_def ensure_cases price_create_def storage_call_eq
      add_price_def split: option.splits list.splits bool.splits)

lemma getDailyPrices_frame:
  "clock (snd (getDailyPrices axios s w)) = clock w
   \<and> requests (snd (getDailyPrices axios s w)) = requests w @ [(chart_url @ s, clock w)]"
  by (simp add: getDailyPrices_eq Let_def saveDaily_frame split: option.splits)

lemma daily_step_settled:
  assumes "settled w"
  shows "settled (sleep 1000 (snd (getDailyPrices axios s w)))"
  using assms by (simp add: settled_def sleep_def getDailyPrices_frame paced_snoc)

lemma daily_loop_settled:
  "settled w \<Longrightarrow> settled (snd (daily_loop axios symbols pf w))"
proof (induction symbols arbitrary: pf w)
  case Nil
  then show ?case by simp
next
  case (Cons s symbols)
  obtain x w1 where g: "getDailyPrices axios s w = (x, w1)" by force
  have "settled (sleep 1000 w1)" using daily_step_settled [OF Cons.prems, of axios s] g by simp
  then show ?case using g Cons.IH by (cases x) simp_all
qed

text \<open>
  The daily-close driver does pace its fetches: started with an empty request log, the
  requests of a run are at least one second apart, whether the fetches succeed or fail.
\<close>

theorem daily_close_paced:
  assumes "requests w = []"
  shows "paced 1000 (requests (snd (executeDailyClose axios w)))"
proof -
  have "settled (w\<lparr>faults := tl (faults w)\<rparr>)" using assms by (simp add: settled_def)
  then have "settled (snd (daily_loop axios (map a_symbol (assets w)) (0, 0) (w\<lparr>faults := tl (faults w)\<rparr>)))"
    by (rule daily_loop_settled)
  then show ?thesis using assms by (simp add: executeDailyClose_eq Let_def settled_def)
qed

text \<open>Witness: a daily close over AAPL, whose fetch fails, and MSFT, whose fetch
  succeeds.\<close>

theorem daily_close_paced_witness:
  "requests two_assets = []
   \<and> paced 1000 (requests (snd (executeDailyClose aapl_down_stub two_assets)))
   \<and> fst (executeDailyClose aapl_down_stub two_assets) = Some (1, 1)
   \<and> map snd (requests (snd (executeDailyClose aapl_down_stub two_assets)))
       = [1700000000000, 1700000001000]"
proof -
  have r: "requests two_assets = []" by (simp add: two_assets_def model_defs fixture_defs)
  have e: "fst (executeDailyClose aapl_down_stub two_assets) = Some (1, 1)
     \<and> map snd (requests (snd (executeDailyClose aapl_down_stub two_assets)))
       = [1700000000000, 1700000001000]"
    by (simp add: two_assets_def model_defs fixture_defs aapl_down_stub_def)
  show ?thesis using r e daily_close_paced [OF r, of aapl_down_stub] by simp
qed

subsection \<open>C8: a symbol without data\<close>

text \<open>
  Claim C8, as amended. When the provider answers a historical request with no result set,
  the fetch throws the fixed message of \<^verbatim>\<open>getHistoricalPrices\<close> (the not-found message
  is logged and replaced), the bulk load records a failed outcome with that message and
  goes on with the next symbol, and nothing but the request log changes: no price row is
  written and the asset table is what it was, so it holds an asset of the symbol only if
  one was registered before the load.
\<close>

theorem empty_result_outcome:
  assumes "axios (hist_url s r) (clock w) = Data None \<or> axios (hist_url s r) (clock w) = Data (Some [])"
  shows "getHistoricalPrices axios s r w
           = (Inl (Error (''Fallo al obtener precios hist'' @ o_acute @ ''ricos para '' @ s)),
              w\<lparr>requests := requests w @ [(hist_url s r, clock w)]\<rparr>)
       \<and> bulk_loop axios r (s # symbols) results w
           = bulk_loop axios r symbols
               (results @ [\<lparr>r_symbol = s, r_records = None, r_status = failed,
                  r_error = Some (''Fallo al obtener precios hist'' @ o_acute @ ''ricos para '' @ s)\<rparr>])
               (w\<lparr>requests := requests w @ [(hist_url s r, clock w)]\<rparr>)
       \<and> loadBulkHistoricalData axios [s] r w
           = (Inr [\<lparr>r_symbol = s, r_records = None, r_status = failed,
                  r_error = Some (''Fallo al obtener precios hist'' @ o_acute @ ''ricos para '' @ s)\<rparr>],
              w\<lparr>requests := requests w @ [(hist_url s r, clock w)]\<rparr>)
       \<and> prices (snd (loadBulkHistoricalData axios [s] r w)) = prices w
       \<and> assets (snd (loadBulkHistoricalData axios [s] r w)) = assets w"
proof -
  have f: "hist_fetch (axios (hist_url s r) (clock w)) = None" using assms by auto
  have g: "getHistoricalPrices axios s r w
           = (Inl (Error (''Fallo al obtener precios hist'' @ o_acute @ ''ricos para '' @ s)),
              w\<lparr>requests := requests w @ [(hist_url s r, clock w)]\<rparr>)"
    using f by (simp add: getHistoricalPrices_eq Let_def hist_failure_def)
  show ?thesis by (simp add: g loadBulkHistoricalData_def)
qed

text \<open>Witness of C8: ZZZZ on the empty store.\<close>

theorem empty_result_outcome_witness:
  "(zzzz_aapl_stub (hist_url ''ZZZZ'' ''5y'') (clock world0) = Data None
      \<or> zzzz_aapl_stub (hist_url ''ZZZZ'' ''5y'') (clock world0) = Data (Some []))
   \<and> fst (loadBulkHistoricalData zzzz_aapl_stub [''ZZZZ''] ''5y'' world0)
       = Inr [\<lparr>r_symbol = ''ZZZZ'', r_records = None, r_status = failed,
               r_error = Some (''Fallo al obtener precios hist'' @ o_acute @ ''ricos para ZZZZ'')\<rparr>]
   \<and> prices (snd (loadBulkHistoricalData zzzz_aapl_stub [''ZZZZ''] ''5y'' world0)) = prices world0"
proof -
  have a: "zzzz_aapl_stub (hist_url ''ZZZZ'' ''5y'') (clock world0) = Data None
      \<or> zzzz_aapl_stub (hist_url ''ZZZZ'' ''5y'') (clock world0) = Data (Some [])"
    by (simp add: zzzz_aapl_stub_def)
  show ?thesis
    using a empty_result_outcome [of zzzz_aapl_stub "''ZZZZ''" "''5y''" world0, OF a] by simp
qed

text \<open>
  C8 as stated fails in its last part: registration happens in the save step, after a
  successful fetch. After a load of ZZZZ on the empty store, the outcome is failed and the
  asset table is still empty.
\<close>

theorem empty_result_registers_nothing:
  "map r_status (projr (fst (loadBulkHistoricalData zzzz_aapl_stub [''ZZZZ''] ''5y'' world0))) = [failed]
   \<and> assets (snd (loadBulkHistoricalData zzzz_aapl_stub [''ZZZZ''] ''5y'' world0)) = []
   \<and> prices (snd (loadBulkHistoricalData zzzz_aapl_stub [''ZZZZ''] ''5y'' world0)) = []"
  by (simp add: model_defs fixture_defs zzzz_aapl_stub_def)

subsection \<open>C9: the letter case of a symbol\<close>

text \<open>
  Claim C9 fails on the historical and registration paths: only \<^verbatim>\<open>getDailyPrices\<close>
  puts the symbol in upper case. A historical fetch of aapl followed by a daily ingestion
  of aapl stores two assets, aapl and AAPL, with a price row under each.
\<close>

theorem mixed_case_symbol_two_assets:
  "map a_symbol (assets (snd (ensureAssetExists ''aapl'' world0))) = [''aapl'']
   \<and> map a_symbol (assets (snd (getDailyPrices aapl_stub ''aapl''
                                  (snd (getHistoricalPrices aapl_stub ''aapl'' ''5y'' world0)))))
       = [''aapl'', ''AAPL'']
   \<and> map p_assetId (prices (snd (getDailyPrices aapl_stub ''aapl''
                                  (snd (getHistoricalPrices aapl_stub ''aapl'' ''5y'' world0)))))
       = [1, 1, 2]"
  by (simp add: model_defs fixture_defs)

subsection \<open>C10: stopping and restarting the scheduler\<close>

text \<open>
  Claim C10. \<^verbatim>\<open>stop\<close> clears the running flag and leaves the registered jobs. A second
  \<^verbatim>\<open>start\<close> while running changes nothing, but \<^verbatim>\<open>start\<close> after \<^verbatim>\<open>stop\<close> registers
  the two jobs again: after start, stop, start on a fresh scheduler four jobs are
  registered, and at every tick the jobs that fire are those of a single start, twice.
\<close>

theorem restart_duplicates_jobs:
  "jobs (stop s) = jobs s \<and> isRunning (stop s) = False
   \<and> start (start s) = start s
   \<and> jobs (start (stop (start s))) = jobs (start s) @ [MarketClose, HealthCheck]
   \<and> jobs (start scheduler0) = [MarketClose, HealthCheck]
   \<and> jobs (start (stop (start scheduler0))) = [MarketClose, HealthCheck, MarketClose, HealthCheck]
   \<and> firing t (start (stop (start scheduler0)))
       = firing t (start scheduler0) @ firing t (start scheduler0)
   \<and> firing friday_close (start scheduler0) = [MarketClose]
   \<and> firing friday_close (start (stop (start scheduler0))) = [MarketClose, MarketClose]
   \<and> firing monday_nine (start (stop (start scheduler0))) = [HealthCheck, HealthCheck]"
  by (simp add: start_def stop_def scheduler0_def firing_def friday_close_def monday_nine_def)

subsection \<open>Further properties\<close>

text \<open>
  The range table: a range key that is neither a key of the table nor a member inherited
  from \<^verbatim>\<open>Object.prototype\<close> falls back to the configuration of \<^verbatim>\<open>1mo\<close>;
  \<^verbatim>\<open>1d\<close> samples every 15 minutes, \<^verbatim>\<open>5y\<close> every week and \<^verbatim>\<open>max\<close> every
  month. An inherited member such as \<^verbatim>\<open>toString\<close> is found, so there is no fallback,
  and the URL asks for the range and the interval \<^verbatim>\<open>undefined\<close>.
\<close>

theorem range_config_fallback:
  assumes "rangeKey \<notin> set (map fst dateRangeConfigs)"
    and "rangeKey \<notin> set object_prototype_keys"
  shows "getDateRangeConfig rangeKey = Config \<lparr>cfg_range = ''1mo'', cfg_interval = ''1d''\<rparr>
       \<and> getDateRangeConfig rangeKey = getDateRangeConfig ''1mo''
       \<and> hist_url s rangeKey = hist_url s ''1mo''
       \<and> getDateRangeConfig ''1d'' = Config \<lparr>cfg_range = ''1d'', cfg_interval = ''15m''\<rparr>
       \<and> getDateRangeConfig ''5y'' = Config \<lparr>cfg_range = ''5y'', cfg_interval = ''1wk''\<rparr>
       \<and> getDateRangeConfig ''max'' = Config \<lparr>cfg_range = ''max'', cfg_interval = ''1mo''\<rparr>
       \<and> getDateRangeConfig ''toString'' = Inherited
       \<and> hist_url s ''toString'' = chart_url @ s @ ''?range=undefined&interval=undefined''"
proof -
  have "map_of dateRangeConfigs rangeKey = None"
    using assms(1) by (simp add: map_of_eq_None_iff)
  then have a: "getDateRangeConfig rangeKey = Config \<lparr>cfg_range = ''1mo'', cfg_interval = ''1d''\<rparr>"
    using assms(2) by (simp add: getDateRangeConfig_def config_lookup_def)
  have b: "getDateRangeConfig ''1mo'' = Config \<lparr>cfg_range = ''1mo'', cfg_interval = ''1d''\<rparr>
       \<and> getDateRangeConfig ''1d'' = Config \<lparr>cfg_range = ''1d'', cfg_interval = ''15m''\<rparr>
       \<and> getDateRangeConfig ''5y'' = Config \<lparr>cfg_range = ''5y'', cfg_interval = ''1wk''\<rparr>
       \<and> getDateRangeConfig ''max'' = Config \<lparr>cfg_range = ''max'', cfg_interval = ''1mo''\<rparr>
       \<and> getDateRangeConfig ''toString'' = Inherited"
    by (simp add: getDateRangeConfig_def config_lookup_def dateRangeConfigs_def
        object_prototype_keys_def)
  show ?thesis using a b by (simp add: hist_url_def)
qed

text \<open>Witness: the key \<^verbatim>\<open>7d\<close> is not in the table and is not inherited.\<close>

theorem range_config_fallback_witness:
  "''7d'' \<notin> set (map fst dateRangeConfigs) \<and> ''7d'' \<notin> set object_prototype_keys
   \<and> getDateRangeConfig ''7d'' = Config \<lparr>cfg_range = ''1mo'', cfg_interval = ''1d''\<rparr>"
proof -
  have a: "''7d'' \<notin> set (map fst dateRangeConfigs)" by (simp add: dateRangeConfigs_def)
  have b: "''7d'' \<notin> set object_prototype_keys" by (simp add: object_prototype_keys_def)
  show ?thesis using a b range_config_fallback [OF a b] by simp
qed

lemma daily_loop_counts:
  "fst (fst (daily_loop axios symbols pf w)) + snd (fst (daily_loop axios symbols pf w))
     = fst pf + snd pf + length symbols
   \<and> map fst (requests (snd (daily_loop axios symbols pf w)))
     = map fst (requests w) @ map (\<lambda>s. chart_url @ s) symbols"
proof (induction symbols arbitrary: pf w)
  case Nil
  then show ?case by simp
next
  case (Cons s symbols)
  obtain x w1 where g: "getDailyPrices axios s w = (x, w1)" by force
  have r: "requests (sleep 1000 w1) = requests w @ [(chart_url @ s, clock w)]"
    using getDailyPrices_frame [of axios s w] g by (simp add: sleep_def)
  show ?case using g r Cons.IH [of _ "sleep 1000 w1"] by (cases x) simp_all
qed

text \<open>
  The daily-close driver works on the symbols of the asset table, not on a fixed list: a
  run that logs a summary has issued one request per stored asset, in the order of the
  table, each for the URL of that asset's symbol, and its two counts add up to the number
  of assets.
\<close>

theorem daily_close_covers_registry:
  assumes "fst (executeDailyClose axios w) = Some (np, nf)"
  shows "np + nf = length (assets w)
       \<and> map fst (requests (snd (executeDailyClose axios w)))
           = map fst (requests w) @ map (\<lambda>a. chart_url @ a_symbol a) (assets w)"
  using assms
    daily_loop_counts [of axios "map a_symbol (assets w)" "(0, 0)" "w\<lparr>faults := tl (faults w)\<rparr>"]
  by (simp add: executeDailyClose_eq Let_def o_def split: if_splits)

text \<open>Witness: a daily close over AAPL and MSFT.\<close>

theorem daily_close_covers_registry_witness:
  "fst (executeDailyClose aapl_stub two_assets) = Some (2, 0)
   \<and> (2::nat) + 0 = length (assets two_assets)
   \<and> map fst (requests (snd (executeDailyClose aapl_stub two_assets)))
       = [chart_url @ ''AAPL'', chart_url @ ''MSFT'']"
proof -
  have a: "fst (executeDailyClose aapl_stub two_assets) = Some (2, 0)"
    by (simp add: two_assets_def model_defs fixture_defs)
  have b: "map a_symbol (assets two_assets) = [''AAPL'', ''MSFT''] \<and> requests two_assets = []"
    by (simp add: two_assets_def model_defs fixture_defs)
  have c: "map (\<lambda>a. chart_url @ a_symbol a) (assets two_assets)
           = map (\<lambda>s. chart_url @ s) (map a_symbol (assets two_assets))"
    by (simp add: o_def)
  show ?thesis
    using a b daily_close_covers_registry [OF a] unfolding c by simp
qed

text \<open>
  A historical save of an empty series registers the asset and writes no price row.
\<close>

theorem empty_series_writes_nothing:
  "prices (saveHistoricalPricesToDatabase s [] w) = prices w
   \<and> assets (saveHistoricalPricesToDatabase s [] w) = assets (snd (ensureAssetExists s w))"
  by (simp add: saveHistoricalPricesToDatabase_def ensure_cases split: option.splits)

text \<open>
  When no storage call fails, a historical fetch run again at once changes no price row:
  the rows of the first run are all stored, and the second run skips them.
\<close>

theorem reload_without_faults:
  assumes "faults w = []"
  shows "prices (snd (getHistoricalPrices axios s r (snd (getHistoricalPrices axios s r w))))
         = prices (snd (getHistoricalPrices axios s r w))"
  using assms by (rule historical_reload)

text \<open>Witness: the series of AAPL, fetched twice into the empty store.\<close>

theorem reload_without_faults_witness:
  "faults world0 = []
   \<and> map p_date (prices (snd (getHistoricalPrices aapl_stub ''AAPL'' ''5y'' world0)))
       = [1699900000000, 1700072800000]
   \<and> map p_date (prices (snd (getHistoricalPrices aapl_stub ''AAPL'' ''5y''
                     (snd (getHistoricalPrices aapl_stub ''AAPL'' ''5y'' world0)))))
       = [1699900000000, 1700072800000]"
proof -
  have f: "faults world0 = []" by (simp add: world0_def)
  have e: "map p_date (prices (snd (getHistoricalPrices aapl_stub ''AAPL'' ''5y'' world0)))
       = [1699900000000, 1700072800000]"
    by (simp add: model_defs fixture_defs)
  show ?thesis
    using f e reload_without_faults [OF f, of aapl_stub "''AAPL''" "''5y''"] by simp
qed

end
